theory Spec2Isabelle
  imports Complex_Main "HOL-Library.Sublist"
begin

section \<open>Shared data model\<close>

text \<open>
  Python dictionaries are association lists in insertion order (\<open>items()\<close> order);
  a lookup is \<open>map_of\<close>. Python floats are idealised as real numbers: comparisons are
  exact, arithmetic is exact real arithmetic.
\<close>

type_synonym ('k, 'v) dict = "('k \<times> 'v) list"

datatype py_error = KeyError string

text \<open>Python's \<open>sub in s\<close> on strings: \<open>sub\<close> occurs as a contiguous substring.\<close>

primrec str_contains :: "string \<Rightarrow> string \<Rightarrow> bool" where
  "str_contains sub [] = (sub = [])"
| "str_contains sub (c # cs) = (prefix sub (c # cs) \<or> str_contains sub cs)"

text \<open>\<open>d[k]\<close>: the value, or \<open>KeyError\<close> naming the key.\<close>

definition getitem :: "(string, 'v) dict \<Rightarrow> string \<Rightarrow> py_error + 'v" where
  "getitem d k = (case map_of d k of None \<Rightarrow> Inl (KeyError k) | Some v \<Rightarrow> Inr v)"

section \<open>core/physics\_engine.py\<close>

text \<open>
  \<open>validate_angles\<close>: the loop over \<open>angles.items()\<close> returns False at the first value
  outside \<open>0 <= v <= 180\<close>, and True when the loop ends.
\<close>

fun validate_angles :: "(string, real) dict \<Rightarrow> bool" where
  "validate_angles [] = True"
| "validate_angles ((angle_name, angle_value) # rest) =
     (if \<not> (0 \<le> angle_value \<and> angle_value \<le> 180) then False
      else validate_angles rest)"

section \<open>core/safety\_engine.py\<close>

text \<open>
  Rule values of the repository's rule tables are Python ints, floats and bools.
  \<open>bool\<close> is a subclass of \<open>int\<close>, so \<open>isinstance(value, (int, float))\<close> holds for
  all three, and a bool counts as 0 or 1 in arithmetic and comparisons.
\<close>

datatype pyval = PInt int | PFloat real | PBool bool

fun is_int_or_float :: "pyval \<Rightarrow> bool" where
  "is_int_or_float (PInt _) = True"
| "is_int_or_float (PFloat _) = True"
| "is_int_or_float (PBool _) = True"

fun int_of :: "pyval \<Rightarrow> int option" where
  "int_of (PInt i) = Some i"
| "int_of (PBool b) = Some (if b then 1 else 0)"
| "int_of (PFloat _) = None"

fun num_of :: "pyval \<Rightarrow> real" where
  "num_of (PInt i) = of_int i"
| "num_of (PFloat x) = x"
| "num_of (PBool b) = (if b then 1 else 0)"

text \<open>Truthiness of a rule value, as \<open>and rules[...]\<close> tests it.\<close>

fun truthy :: "pyval \<Rightarrow> bool" where
  "truthy (PInt i) = (i \<noteq> 0)"
| "truthy (PFloat x) = (x \<noteq> 0)"
| "truthy (PBool b) = b"

text \<open>\<open>a - b\<close> and \<open>a + b\<close>: an int when both operands are ints or bools, a float otherwise.\<close>

definition py_sub :: "pyval \<Rightarrow> pyval \<Rightarrow> pyval" where
  "py_sub a b =
     (case (int_of a, int_of b) of
        (Some i, Some j) \<Rightarrow> PInt (i - j)
      | _ \<Rightarrow> PFloat (num_of a - num_of b))"

definition py_add :: "pyval \<Rightarrow> pyval \<Rightarrow> pyval" where
  "py_add a b =
     (case (int_of a, int_of b) of
        (Some i, Some j) \<Rightarrow> PInt (i + j)
      | _ \<Rightarrow> PFloat (num_of a + num_of b))"

text \<open>models/user\_profile.py: the \<open>UserProfile\<close> dataclass.\<close>

record user_profile =
  user_id :: string
  name :: string
  level :: string
  conditions :: "string list"
  age :: "int option"
  flexibility_score :: "int option"
  goals :: "string list"

text \<open>\<open>UserProfileManager.get_conditions\<close> and \<open>get_level\<close> read the wrapped profile.\<close>

definition get_conditions :: "user_profile \<Rightarrow> string list" where
  "get_conditions profile = conditions profile"

definition get_level :: "user_profile \<Rightarrow> string" where
  "get_level profile = level profile"

text \<open>
  An entry of the safety knowledge base (a JSON object per pose name). The knowledge
  files are not part of the sources; the shape is the one \<open>_check_contraindications\<close>
  reads: an optional list \<open>contraindications\<close> of condition codes, next to any other keys.
\<close>

record pose_data =
  contraindications :: "string list option"
  other_keys :: "string list"

text \<open>\<open>not pose_data\<close> on an entry that exists: true for the empty object.\<close>

definition pose_data_falsy :: "pose_data \<Rightarrow> bool" where
  "pose_data_falsy pd = (contraindications pd = None \<and> other_keys pd = [])"

text \<open>\<open>self.level_adaptations\<close> of \<open>_init_condition_mappings\<close>.\<close>

definition level_adaptations :: "(string, (string, pyval) dict) dict" where
  "level_adaptations =
     [(''beginner'',
         [(''angle_tolerance'', PInt 10), (''threshold_relaxation'', PFloat (10 / 100))]),
      (''intermediate'',
         [(''angle_tolerance'', PInt 5), (''threshold_relaxation'', PFloat 0)]),
      (''advanced'',
         [(''angle_tolerance'', PInt (- 5)), (''threshold_tightening'', PFloat (5 / 100))])]"

definition get_pose_data :: "(string, pose_data) dict \<Rightarrow> string \<Rightarrow> pose_data option" where
  "get_pose_data knowledge_base pose_name = map_of knowledge_base pose_name"

text \<open>
  The loop of \<open>_check_contraindications\<close>: the first of the user's conditions found in
  the contraindication list stops it with \<open>(False, reason)\<close>.
\<close>

fun check_conditions :: "string list \<Rightarrow> string list \<Rightarrow> bool \<times> string option" where
  "check_conditions contra [] = (True, None)"
| "check_conditions contra (condition # rest) =
     (if condition \<in> set contra
      then (False, Some (''Pose contraindicated due to '' @ condition))
      else check_conditions contra rest)"

definition check_contraindications :: "pose_data \<Rightarrow> user_profile \<Rightarrow> bool \<times> string option" where
  "check_contraindications pd profile =
     check_conditions (case contraindications pd of None \<Rightarrow> [] | Some cs \<Rightarrow> cs)
       (get_conditions profile)"

record adaptation_result =
  pose_allowed :: bool
  reason :: "string option"
  adapted_rules :: "(string, pyval) dict"
  safety_modifications :: "string option list"
  risk_level :: string

definition angle_tolerance_of :: "string \<Rightarrow> pyval" where
  "angle_tolerance_of lvl =
     (case map_of (case map_of level_adaptations lvl of None \<Rightarrow> [] | Some la \<Rightarrow> la)
             ''angle_tolerance'' of
        None \<Rightarrow> PInt 0
      | Some v \<Rightarrow> v)"

text \<open>The body of the loop over \<open>adapted_rules.items()\<close>, for one item.\<close>

definition adjust_rule :: "pyval \<Rightarrow> string \<times> pyval \<Rightarrow> string \<times> pyval" where
  "adjust_rule angle_tolerance kv =
     (case kv of (key, val) \<Rightarrow>
        if is_int_or_float val \<and> str_contains ''angle'' key then
          (if str_contains ''min'' key then (key, py_sub val angle_tolerance)
           else (key, py_add val angle_tolerance))
        else (key, val))"

definition adapt_rules ::
  "(string, pose_data) dict \<Rightarrow> string \<Rightarrow> (string, pyval) dict \<Rightarrow> user_profile
     \<Rightarrow> adaptation_result" where
  "adapt_rules knowledge_base pose_name base_rules profile =
     (let unadapted = \<lparr>pose_allowed = True, reason = None, adapted_rules = base_rules,
                        safety_modifications = [], risk_level = ''low''\<rparr>
      in case get_pose_data knowledge_base pose_name of
           None \<Rightarrow> unadapted
         | Some pd \<Rightarrow>
             if pose_data_falsy pd then unadapted
             else
               (case check_contraindications pd profile of
                  (allowed, why) \<Rightarrow>
                    if \<not> allowed then
                      \<lparr>pose_allowed = False, reason = why, adapted_rules = [],
                       safety_modifications = [why], risk_level = ''high''\<rparr>
                    else
                      \<lparr>pose_allowed = True, reason = None,
                       adapted_rules =
                         map (adjust_rule (angle_tolerance_of (get_level profile))) base_rules,
                       safety_modifications = [], risk_level = ''low''\<rparr>))"

section \<open>core/rule\_engine.py: the rule tables\<close>

text \<open>\<open>rules_map\<close> of \<open>_get_default_rules\<close>.\<close>

definition rules_map :: "(string, (string, pyval) dict) dict" where
  "rules_map =
     [(''parvatasana'',
         [(''knee_angle_min'', PInt 170), (''elbow_angle_min'', PInt 170),
          (''hip_height_above_shoulder'', PBool True), (''heel_height_max'', PFloat (5 / 100))]),
      (''hasta_uttanasana'',
         [(''elbow_angle_min'', PInt 165), (''spine_extension_min'', PInt 10),
          (''arms_overhead'', PBool True)]),
      (''bhujangasana'',
         [(''elbow_angle_min'', PInt 150), (''spine_extension_min'', PInt 15),
          (''pelvis_grounded'', PBool True)]),
      (''ashwa_sanchalanasana'',
         [(''front_knee_angle_min'', PInt 80), (''front_knee_angle_max'', PInt 110),
          (''back_knee_angle_min'', PInt 160), (''spine_extension_min'', PInt 10)]),
      (''pranamasana'',
         [(''spine_vertical'', PBool True), (''feet_together'', PBool True)])]"

definition get_default_rules :: "string \<Rightarrow> (string, pyval) dict" where
  "get_default_rules pose_name =
     (case map_of rules_map pose_name of None \<Rightarrow> [] | Some rules \<Rightarrow> rules)"

section \<open>core/correction\_engine.py\<close>

text \<open>
  An entry of the corrections knowledge base (a JSON object per pose name), with the
  shape \<open>generate_corrections\<close> reads: an optional \<open>correction_library\<close> from issue
  codes to phrases, next to any other keys. The knowledge files are not part of the
  sources.
\<close>

record pose_knowledge =
  correction_library :: "(string, string) dict option"
  knowledge_other_keys :: "string list"

definition pose_knowledge_falsy :: "pose_knowledge \<Rightarrow> bool" where
  "pose_knowledge_falsy pk = (correction_library pk = None \<and> knowledge_other_keys pk = [])"

record corrections =
  corr_pose_name :: string
  biomechanical_issues :: "string list"
  verbal_corrections :: "string list"
  priority_level :: string

text \<open>The loop over \<open>issues\<close>: an issue without a phrase in the library is skipped.\<close>

fun map_issues :: "(string, string) dict \<Rightarrow> string list \<Rightarrow> string list" where
  "map_issues library [] = []"
| "map_issues library (issue # rest) =
     (case map_of library issue of
        Some phrase \<Rightarrow> phrase # map_issues library rest
      | None \<Rightarrow> map_issues library rest)"

definition generate_corrections ::
  "(string, pose_knowledge) dict \<Rightarrow> string \<Rightarrow> string list \<Rightarrow> corrections" where
  "generate_corrections knowledge_base pose_name issues =
     (let not_found = \<lparr>corr_pose_name = pose_name, biomechanical_issues = issues,
                        verbal_corrections = [''Pose not found in knowledge base.''],
                        priority_level = ''low''\<rparr>
      in case map_of knowledge_base pose_name of
           None \<Rightarrow> not_found
         | Some pk \<Rightarrow>
             if pose_knowledge_falsy pk then not_found
             else if issues = [] then
               \<lparr>corr_pose_name = pose_name, biomechanical_issues = [],
                verbal_corrections = [''Excellent alignment. Maintain steady breathing.''],
                priority_level = ''low''\<rparr>
             else
               \<lparr>corr_pose_name = pose_name, biomechanical_issues = issues,
                verbal_corrections =
                  map_issues (case correction_library pk of None \<Rightarrow> [] | Some l \<Rightarrow> l) issues,
                priority_level = (if length issues > 2 then ''medium'' else ''low'')\<rparr>)"

section \<open>core/rule\_engine.py: evaluate\_pose\<close>

text \<open>A landmark is a numpy array of three coordinates \<open>[x, y, z]\<close>.\<close>

type_synonym vec3 = "real \<times> real \<times> real"

definition vec_add :: "vec3 \<Rightarrow> vec3 \<Rightarrow> vec3" where
  "vec_add a b = (case a of (ax, ay, az) \<Rightarrow> case b of (bx, by, bz) \<Rightarrow>
     (ax + bx, ay + by, az + bz))"

definition vec_half :: "vec3 \<Rightarrow> vec3" where
  "vec_half a = (case a of (ax, ay, az) \<Rightarrow> (ax / 2, ay / 2, az / 2))"

text \<open>\<open>v[1]\<close>: the vertical coordinate.\<close>

definition coord1 :: "vec3 \<Rightarrow> real" where
  "coord1 a = (case a of (ax, ay, az) \<Rightarrow> ay)"

text \<open>\<open>d[k] = v\<close> on a dictionary in insertion order.\<close>

primrec setitem :: "('k, 'v) dict \<Rightarrow> 'k \<Rightarrow> 'v \<Rightarrow> ('k, 'v) dict" where
  "setitem [] k v = [(k, v)]"
| "setitem (p # ps) k v = (if fst p = k then (k, v) # ps else p # setitem ps k v)"

text \<open>
  \<open>round(x, 2)\<close>: to the nearest multiple of 1/100, a tie going to the even neighbour.
\<close>

definition round_half_even :: "real \<Rightarrow> int" where
  "round_half_even x =
     (let f = \<lfloor>x\<rfloor>; d = x - of_int f
      in if d < 1 / 2 then f else if 1 / 2 < d then f + 1
         else if even f then f else f + 1)"

definition py_round2 :: "real \<Rightarrow> real" where
  "py_round2 x = of_int (round_half_even (x * 100)) / 100"

text \<open>The local variables of \<open>evaluate_pose\<close>.\<close>

record eval_state =
  issues :: "string list"
  passed_rules :: "(string, bool) dict"
  failed_rules :: "(string, bool) dict"
  total_rules :: nat
  passed_count :: nat

text \<open>The dictionary \<open>evaluate_pose\<close> returns.\<close>

record evaluation =
  result_issues :: "string list"
  alignment_score :: real
  result_passed_rules :: "(string, bool) dict"
  result_failed_rules :: "(string, bool) dict"

text \<open>
  A symmetric angle rule (the blocks "Evaluate knee angles" and "Evaluate elbow angles"):
  present in \<open>rules\<close>, it adds 2 to \<open>total_rules\<close>, reads the left and the right angle
  (a missing key raises \<open>KeyError\<close>), and adds 2 to \<open>passed_count\<close> only when both
  sides pass.
\<close>

definition angle_rule ::
  "string \<Rightarrow> string \<Rightarrow> string \<Rightarrow> string \<Rightarrow> string \<Rightarrow> (string, pyval) dict
     \<Rightarrow> (string, real) dict \<Rightarrow> eval_state \<Rightarrow> py_error + eval_state" where
  "angle_rule rule_key left_key right_key rule_group issue_code rules joint_angles st =
     (case map_of rules rule_key of
        None \<Rightarrow> Inr st
      | Some threshold \<Rightarrow>
          (let st1 = st\<lparr>total_rules := total_rules st + 2\<rparr>
           in case getitem joint_angles left_key of
                Inl e \<Rightarrow> Inl e
              | Inr left_angle \<Rightarrow>
                  (case getitem joint_angles right_key of
                     Inl e \<Rightarrow> Inl e
                   | Inr right_angle \<Rightarrow>
                       (let left_pass = (num_of threshold \<le> left_angle);
                            right_pass = (num_of threshold \<le> right_angle)
                        in if left_pass \<and> right_pass then
                             Inr (st1\<lparr>passed_rules := setitem (passed_rules st1) rule_group True,
                                      passed_count := passed_count st1 + 2\<rparr>)
                           else
                             Inr (st1\<lparr>failed_rules := setitem (failed_rules st1) rule_group False,
                                      issues := issues st1 @ [issue_code]\<rparr>)))))"

definition knee_rule ::
  "(string, pyval) dict \<Rightarrow> (string, real) dict \<Rightarrow> eval_state \<Rightarrow> py_error + eval_state" where
  "knee_rule = angle_rule ''knee_angle_min'' ''left_knee_angle'' ''right_knee_angle''
     ''knees_extended'' ''knees_bent''"

definition elbow_rule ::
  "(string, pyval) dict \<Rightarrow> (string, real) dict \<Rightarrow> eval_state \<Rightarrow> py_error + eval_state" where
  "elbow_rule = angle_rule ''elbow_angle_min'' ''left_elbow_angle'' ''right_elbow_angle''
     ''elbows_extended'' ''elbows_bent''"

text \<open>
  The block "Evaluate hip height": it runs when the flag is present and truthy, reads
  the four landmarks in the order the source does, and compares the vertical coordinates
  of the two midpoints.
\<close>

definition hip_rule ::
  "(string, pyval) dict \<Rightarrow> (string, vec3) dict \<Rightarrow> eval_state \<Rightarrow> py_error + eval_state" where
  "hip_rule rules landmarks_dict st =
     (case map_of rules ''hip_height_above_shoulder'' of
        None \<Rightarrow> Inr st
      | Some flag \<Rightarrow>
          if \<not> truthy flag then Inr st
          else
            (let st1 = st\<lparr>total_rules := total_rules st + 1\<rparr>
             in case getitem landmarks_dict ''left_hip'' of
                  Inl e \<Rightarrow> Inl e
                | Inr left_hip \<Rightarrow>
                (case getitem landmarks_dict ''right_hip'' of
                  Inl e \<Rightarrow> Inl e
                | Inr right_hip \<Rightarrow>
                (case getitem landmarks_dict ''left_shoulder'' of
                  Inl e \<Rightarrow> Inl e
                | Inr left_shoulder \<Rightarrow>
                (case getitem landmarks_dict ''right_shoulder'' of
                  Inl e \<Rightarrow> Inl e
                | Inr right_shoulder \<Rightarrow>
                    (let mid_hip = vec_half (vec_add left_hip right_hip);
                         mid_shoulder = vec_half (vec_add left_shoulder right_shoulder);
                         hip_above_shoulder = (coord1 mid_hip < coord1 mid_shoulder)
                     in if hip_above_shoulder then
                          Inr (st1\<lparr>passed_rules :=
                                     setitem (passed_rules st1) ''hip_elevation'' True,
                                   passed_count := passed_count st1 + 1\<rparr>)
                        else
                          Inr (st1\<lparr>failed_rules :=
                                     setitem (failed_rules st1) ''hip_elevation'' False,
                                   issues := issues st1 @ [''hips_low'']\<rparr>)))))))"

definition initial_eval_state :: eval_state where
  "initial_eval_state =
     \<lparr>issues = [], passed_rules = [], failed_rules = [], total_rules = 0, passed_count = 0\<rparr>"

text \<open>The score and the returned dictionary, from the final local variables.\<close>

definition finish_evaluation :: "eval_state \<Rightarrow> evaluation" where
  "finish_evaluation st =
     (let score = (if total_rules st > 0
                   then real (passed_count st) / real (total_rules st) * 100 else 0)
      in \<lparr>result_issues = issues st, alignment_score = py_round2 score,
          result_passed_rules = passed_rules st, result_failed_rules = failed_rules st\<rparr>)"

definition evaluate_pose ::
  "string \<Rightarrow> (string, vec3) dict \<Rightarrow> (string, real) dict \<Rightarrow> (string, pyval) dict
     \<Rightarrow> py_error + evaluation" where
  "evaluate_pose pose_name landmarks_dict joint_angles rules =
     (case knee_rule rules joint_angles initial_eval_state of
        Inl e \<Rightarrow> Inl e
      | Inr st1 \<Rightarrow>
          (case elbow_rule rules joint_angles st1 of
             Inl e \<Rightarrow> Inl e
           | Inr st2 \<Rightarrow>
               (case hip_rule rules landmarks_dict st2 of
                  Inl e \<Rightarrow> Inl e
                | Inr st3 \<Rightarrow> Inr (finish_evaluation st3))))"

text \<open>
  The keys the rules present in \<open>rules\<close> read from the joint angles and from the
  landmarks.
\<close>

definition required_angle_keys :: "(string, pyval) dict \<Rightarrow> string list" where
  "required_angle_keys rules =
     (if map_of rules ''knee_angle_min'' \<noteq> None
      then [''left_knee_angle'', ''right_knee_angle''] else [])
     @ (if map_of rules ''elbow_angle_min'' \<noteq> None
        then [''left_elbow_angle'', ''right_elbow_angle''] else [])"

definition required_landmark_keys :: "(string, pyval) dict \<Rightarrow> string list" where
  "required_landmark_keys rules =
     (case map_of rules ''hip_height_above_shoulder'' of
        None \<Rightarrow> []
      | Some flag \<Rightarrow>
          if truthy flag then [''left_hip'', ''right_hip'', ''left_shoulder'', ''right_shoulder'']
          else [])"

definition required_keys_present ::
  "(string, pyval) dict \<Rightarrow> (string, real) dict \<Rightarrow> (string, vec3) dict \<Rightarrow> bool" where
  "required_keys_present rules joint_angles landmarks_dict =
     (list_all (\<lambda>k. map_of joint_angles k \<noteq> None) (required_angle_keys rules)
      \<and> list_all (\<lambda>k. map_of landmarks_dict k \<noteq> None) (required_landmark_keys rules))"

section \<open>core/progress\_tracker.py\<close>

text \<open>
  Modelled from the spec: the \<open>FrameMetrics\<close> class of models/pose\_evaluation.py, which
  is not among the sources. The spec lists pose name, alignment score, joint angles and
  timestamp; the tracker reads the first three.
\<close>

record frame_metrics =
  frame_pose_name :: string
  frame_alignment_score :: real
  frame_joint_angles :: "(string, real) dict"
  frame_timestamp :: real

text \<open>
  The attributes of \<open>YogaProgressTracker\<close> that \<open>__init__\<close> creates, without the
  storage path and the stored history of earlier sessions. The identifier
  \<open>session_<n>\<close> is kept as the integer \<open>n\<close>.
\<close>

record tracker =
  session_id :: "int option"
  session_start_time :: "real option"
  frame_metrics_history :: "frame_metrics list"
  alignment_scores :: "real list"
  left_angles_history :: "(string, real) dict list"
  right_angles_history :: "(string, real) dict list"
  spine_extensions :: "real list"
  poses_performed :: "string set"
  fatigue_window :: "real list"
  fatigue_detected :: bool

definition init_tracker :: tracker where
  "init_tracker =
     \<lparr>session_id = None, session_start_time = None, frame_metrics_history = [],
      alignment_scores = [], left_angles_history = [], right_angles_history = [],
      spine_extensions = [], poses_performed = {}, fatigue_window = [],
      fatigue_detected = False\<rparr>"

text \<open>\<open>int(x)\<close> on a float truncates towards zero.\<close>

definition py_int :: "real \<Rightarrow> int" where
  "py_int x = (if 0 \<le> x then \<lfloor>x\<rfloor> else \<lceil>x\<rceil>)"

text \<open>
  \<open>start_session\<close>; the two readings of \<open>time.time()\<close> are the parameters \<open>now1\<close> and
  \<open>now2\<close>.
\<close>

definition start_session :: "real \<Rightarrow> real \<Rightarrow> tracker \<Rightarrow> tracker" where
  "start_session now1 now2 t =
     t\<lparr>session_id := Some (py_int now1), session_start_time := Some now2,
       frame_metrics_history := [], alignment_scores := [], left_angles_history := [],
       right_angles_history := [], spine_extensions := [], poses_performed := {},
       fatigue_window := [], fatigue_detected := False\<rparr>"

text \<open>\<open>append\<close> on a \<open>deque(maxlen=n)\<close>: the last \<open>n\<close> elements are kept.\<close>

definition deque_append :: "nat \<Rightarrow> 'a list \<Rightarrow> 'a \<Rightarrow> 'a list" where
  "deque_append maxlen d x = drop (length d + 1 - maxlen) (d @ [x])"

text \<open>\<open>xs[-n:]\<close>.\<close>

definition py_last :: "nat \<Rightarrow> 'a list \<Rightarrow> 'a list" where
  "py_last n xs = drop (length xs - n) xs"

text \<open>\<open>np.mean\<close> and \<open>np.var\<close> (the population variance), on exact reals.\<close>

definition np_mean :: "real list \<Rightarrow> real" where
  "np_mean xs = sum_list xs / real (length xs)"

definition np_var :: "real list \<Rightarrow> real" where
  "np_var xs = np_mean (map (\<lambda>x. (x - np_mean xs) ^ 2) xs)"

definition track_angles :: "(string, real) dict \<Rightarrow> tracker \<Rightarrow> tracker" where
  "track_angles joint_angles t =
     (let left_angles = filter (\<lambda>kv. str_contains ''left'' (fst kv)) joint_angles;
          right_angles = filter (\<lambda>kv. \<not> str_contains ''left'' (fst kv)
                                      \<and> str_contains ''right'' (fst kv)) joint_angles;
          t1 = (if left_angles \<noteq> []
                then t\<lparr>left_angles_history := left_angles_history t @ [left_angles]\<rparr>
                else t);
          t2 = (if right_angles \<noteq> []
                then t1\<lparr>right_angles_history := right_angles_history t1 @ [right_angles]\<rparr>
                else t1)
      in case map_of joint_angles ''spine_angle'' of
           Some spine_angle \<Rightarrow>
             t2\<lparr>spine_extensions := spine_extensions t2 @ [180 - spine_angle]\<rparr>
         | None \<Rightarrow> t2)"

definition update_fatigue_detection :: "real \<Rightarrow> tracker \<Rightarrow> tracker" where
  "update_fatigue_detection score t =
     (let t1 = t\<lparr>fatigue_window := deque_append 24 (fatigue_window t) score\<rparr>
      in if 24 \<le> length (fatigue_window t1) then
           (let scores = fatigue_window t1;
                first_half = np_mean (take 12 scores);
                second_half = np_mean (drop 12 scores)
            in if 70 < first_half \<and> second_half < first_half - 15
               then t1\<lparr>fatigue_detected := True\<rparr>
               else t1)
         else t1)"

definition update :: "frame_metrics \<Rightarrow> tracker \<Rightarrow> tracker" where
  "update fm t =
     update_fatigue_detection (frame_alignment_score fm)
       (track_angles (frame_joint_angles fm)
          (t\<lparr>frame_metrics_history := deque_append 1000 (frame_metrics_history t) fm,
             alignment_scores := alignment_scores t @ [frame_alignment_score fm],
             poses_performed := insert (frame_pose_name fm) (poses_performed t)\<rparr>))"

text \<open>A session's stream of frames: \<open>update\<close> called once per frame, in order.\<close>

fun update_all :: "tracker \<Rightarrow> frame_metrics list \<Rightarrow> tracker" where
  "update_all t [] = t"
| "update_all t (fm # fms) = update_all (update fm t) fms"

text \<open>
  The inner loops of \<open>compute_stability\<close> for one side: the keys of the samples, and for
  each key with at least 10 values the variance of its values. The order in which the
  key set is walked does not matter for the mean taken afterwards.
\<close>

definition side_variances :: "(string, real) dict list \<Rightarrow> real list" where
  "side_variances angles_list =
     (let angle_keys = remdups (concat (map (map fst) angles_list))
      in concat (map (\<lambda>key.
            (let vals = List.map_filter (\<lambda>angles. map_of angles key) angles_list
             in if 10 \<le> length vals then [np_var vals] else []))
          angle_keys))"

definition compute_stability :: "tracker \<Rightarrow> real" where
  "compute_stability t =
     (if length (left_angles_history t) < 10 then 0
      else
        (let all_variances = side_variances (py_last 50 (left_angles_history t))
                             @ side_variances (py_last 50 (right_angles_history t))
         in if all_variances = [] then 0
            else py_round2 (max 0 (100 - np_mean all_variances))))"

section \<open>Sample inputs\<close>

text \<open>
  A small safety knowledge base and a profile, used to instantiate the theorems below
  at concrete inputs.
\<close>

definition sample_safety_kb :: "(string, pose_data) dict" where
  "sample_safety_kb =
     [(''ashwa_sanchalanasana'',
         \<lparr>contraindications = Some [''recent_spinal_surgery''], other_keys = []\<rparr>),
      (''parvatasana'',
         \<lparr>contraindications = Some [''high_bp'', ''heart_ailments''], other_keys = []\<rparr>)]"

definition sample_profile :: "string \<Rightarrow> string list \<Rightarrow> user_profile" where
  "sample_profile lvl conds =
     \<lparr>user_id = ''u1'', name = ''Asha'', level = lvl, conditions = conds,
      age = Some 30, flexibility_score = None, goals = []\<rparr>"

text \<open>Frames and sessions for the progress tracker.\<close>

definition left_only_frame :: frame_metrics where
  "left_only_frame =
     \<lparr>frame_pose_name = ''parvatasana'', frame_alignment_score = 80,
      frame_joint_angles = [(''left_knee_angle'', 170)], frame_timestamp = 0\<rparr>"

definition left_only_session :: tracker where
  "left_only_session =
     update_all (start_session 0 0 init_tracker) (replicate 10 left_only_frame)"

definition frame_with_score :: "real \<Rightarrow> frame_metrics" where
  "frame_with_score sc =
     \<lparr>frame_pose_name = ''parvatasana'', frame_alignment_score = sc,
      frame_joint_angles = [], frame_timestamp = 0\<rparr>"

definition declining_session :: tracker where
  "declining_session =
     update_all (start_session 0 0 init_tracker)
       (replicate 12 (frame_with_score 85) @ replicate 11 (frame_with_score 60))"

definition late_decline_frames :: "frame_metrics list" where
  "late_decline_frames =
     replicate 24 (frame_with_score 50) @ replicate 12 (frame_with_score 85)
       @ replicate 12 (frame_with_score 60)"

definition steady_frames :: "frame_metrics list" where
  "steady_frames = replicate 24 (frame_with_score 100)"

section \<open>Properties of the physics engine\<close>

lemma validate_angles_all:
  "validate_angles angles = list_all (\<lambda>kv. 0 \<le> snd kv \<and> snd kv \<le> 180) angles"
  by (induction angles rule: validate_angles.induct) auto

text \<open>
  C9. For every angle map, \<open>validate_angles\<close> returns true if and only if every value
  of the map lies in [0, 180]; one value out of range, wherever it stands, makes it
  return false.
\<close>

theorem validate_angles_iff:
  "validate_angles angles \<longleftrightarrow> (\<forall>(k, v) \<in> set angles. 0 \<le> v \<and> v \<le> 180)"
  by (auto simp: validate_angles_all list_all_iff)

theorem validate_angles_iff_witness:
  "validate_angles [(''left_knee_angle'', 175), (''spine_angle'', 0)]
   \<and> \<not> validate_angles [(''left_knee_angle'', 175), (''spine_angle'', 181)]"
proof -
  have ok: "\<forall>(k, v) \<in> set [(''left_knee_angle'', 175 :: real), (''spine_angle'', 0)].
              0 \<le> v \<and> v \<le> 180"
    by simp
  have bad: "\<not> (\<forall>(k, v) \<in> set [(''left_knee_angle'', 175 :: real), (''spine_angle'', 181)].
              0 \<le> v \<and> v \<le> 180)"
    by simp
  show ?thesis
    using ok bad
      validate_angles_iff [of "[(''left_knee_angle'', 175), (''spine_angle'', 0)]"]
      validate_angles_iff [of "[(''left_knee_angle'', 175), (''spine_angle'', 181)]"]
    by blast
qed

section \<open>Properties of the safety adaptation engine\<close>

lemma check_conditions_hit:
  "\<exists>c \<in> set conds. c \<in> set contra \<Longrightarrow>
   \<exists>c'. c' \<in> set conds \<and> c' \<in> set contra \<and>
     check_conditions contra conds = (False, Some (''Pose contraindicated due to '' @ c'))"
  by (induction conds) auto

lemma adapt_rules_with_data:
  assumes "get_pose_data knowledge_base pose_name = Some pd" and "\<not> pose_data_falsy pd"
    and "pose_allowed (adapt_rules knowledge_base pose_name base_rules profile)"
  shows "adapted_rules (adapt_rules knowledge_base pose_name base_rules profile)
         = map (adjust_rule (angle_tolerance_of (level profile))) base_rules"
  using assms by (auto simp: adapt_rules_def Let_def get_level_def split: prod.splits if_splits)

lemma num_of_adjust_rule:
  "num_of (snd (adjust_rule (PInt t) (k, v))) =
     num_of v + (if str_contains ''angle'' k
                 then (if str_contains ''min'' k then - of_int t else of_int t) else 0)"
  by (cases v) (auto simp: adjust_rule_def py_sub_def py_add_def)

lemma fst_adjust_rule: "fst (adjust_rule t kv) = fst kv"
  by (cases kv) (auto simp: adjust_rule_def)

lemma tol_beginner: "angle_tolerance_of ''beginner'' = PInt 10"
  by (simp add: angle_tolerance_of_def level_adaptations_def)
lemma tol_intermediate: "angle_tolerance_of ''intermediate'' = PInt 5"
  by (simp add: angle_tolerance_of_def level_adaptations_def)
lemma tol_advanced: "angle_tolerance_of ''advanced'' = PInt (- 5)"
  by (simp add: angle_tolerance_of_def level_adaptations_def)
lemma tol_other: "lvl \<notin> {''beginner'', ''intermediate'', ''advanced''} \<Longrightarrow> angle_tolerance_of lvl = PInt 0"
  by (simp add: angle_tolerance_of_def level_adaptations_def)

lemma adjusted_shift:
  assumes "i < length base_rules"
  shows "fst (map (adjust_rule (PInt t)) base_rules ! i) = fst (base_rules ! i)
       \<and> num_of (snd (map (adjust_rule (PInt t)) base_rules ! i)) =
           num_of (snd (base_rules ! i))
           + (if str_contains ''angle'' (fst (base_rules ! i))
              then (if str_contains ''min'' (fst (base_rules ! i)) then - of_int t else of_int t)
              else 0)"
proof -
  obtain k v where kv: "base_rules ! i = (k, v)" by (cases "base_rules ! i")
  show ?thesis using assms kv num_of_adjust_rule [of t k v] fst_adjust_rule [of "PInt t" "(k, v)"]
    by simp
qed

lemma adjusted_zero:
  "map fst (map (adjust_rule (PInt 0)) base_rules) = map fst base_rules
   \<and> map (num_of \<circ> snd) (map (adjust_rule (PInt 0)) base_rules) = map (num_of \<circ> snd) base_rules"
proof -
  have "\<And>kv. fst (adjust_rule (PInt 0) kv) = fst kv \<and> num_of (snd (adjust_rule (PInt 0) kv)) = num_of (snd kv)"
  proof -
    fix kv :: "string \<times> pyval"
    obtain k v where "kv = (k, v)" by (cases kv)
    then show "fst (adjust_rule (PInt 0) kv) = fst kv \<and> num_of (snd (adjust_rule (PInt 0) kv)) = num_of (snd kv)"
      using num_of_adjust_rule [of 0 k v] fst_adjust_rule [of "PInt 0" kv] by simp
  qed
  then show ?thesis by simp
qed

lemma adapt_rules_allowed_cases:
  assumes "pose_allowed (adapt_rules knowledge_base pose_name base_rules profile)"
  shows "adapted_rules (adapt_rules knowledge_base pose_name base_rules profile) = base_rules
       \<or> adapted_rules (adapt_rules knowledge_base pose_name base_rules profile)
         = map (adjust_rule (angle_tolerance_of (level profile))) base_rules"
  using assms
  by (auto simp: adapt_rules_def Let_def get_level_def split: option.splits prod.splits if_splits)

lemma sample_lunge: "get_pose_data sample_safety_kb ''ashwa_sanchalanasana''
   = Some \<lparr>contraindications = Some [''recent_spinal_surgery''], other_keys = []\<rparr>"
  by (simp add: get_pose_data_def sample_safety_kb_def)

lemma lunge_rules: "get_default_rules ''ashwa_sanchalanasana'' =
         [(''front_knee_angle_min'', PInt 80), (''front_knee_angle_max'', PInt 110),
          (''back_knee_angle_min'', PInt 160), (''spine_extension_min'', PInt 10)]"
  by (simp add: get_default_rules_def rules_map_def)

lemma adapt_lunge:
  "adapt_rules sample_safety_kb ''ashwa_sanchalanasana''
      (get_default_rules ''ashwa_sanchalanasana'') (sample_profile lvl [''back_pain''])
   = \<lparr>pose_allowed = True, reason = None,
       adapted_rules = map (adjust_rule (angle_tolerance_of lvl))
          (get_default_rules ''ashwa_sanchalanasana''),
       safety_modifications = [], risk_level = ''low''\<rparr>"
  by (simp add: adapt_rules_def sample_lunge pose_data_falsy_def check_contraindications_def
      get_conditions_def get_level_def sample_profile_def)

lemma adjust_lunge:
  "map (adjust_rule (PInt t)) (get_default_rules ''ashwa_sanchalanasana'')
   = [(''front_knee_angle_min'', PInt (80 - t)), (''front_knee_angle_max'', PInt (110 + t)),
          (''back_knee_angle_min'', PInt (160 - t)), (''spine_extension_min'', PInt 10)]"
  by (simp add: lunge_rules adjust_rule_def py_sub_def py_add_def)

lemma sample_parvatasana: "get_pose_data sample_safety_kb ''parvatasana''
   = Some \<lparr>contraindications = Some [''high_bp'', ''heart_ailments''], other_keys = []\<rparr>"
  by (simp add: get_pose_data_def sample_safety_kb_def)

lemma sample_bhujangasana: "get_pose_data sample_safety_kb ''bhujangasana'' = None"
  by (simp add: get_pose_data_def sample_safety_kb_def)

lemma allowed_lunge: "pose_allowed (adapt_rules sample_safety_kb ''ashwa_sanchalanasana''
      (get_default_rules ''ashwa_sanchalanasana'') (sample_profile lvl [''back_pain'']))"
  by (simp add: adapt_lunge)

lemma not_falsy_lunge:
  "\<not> pose_data_falsy \<lparr>contraindications = Some [''recent_spinal_surgery''], other_keys = []\<rparr>"
  by (simp add: pose_data_falsy_def)

lemma lunge_len: "2 < length (get_default_rules ''ashwa_sanchalanasana'')"
  by (simp add: lunge_rules)

lemma lunge_nth2: "get_default_rules ''ashwa_sanchalanasana'' ! 2 = (''back_knee_angle_min'', PInt 160)"
  by (simp add: lunge_rules)

text \<open>
  C10. For a pose name with no entry in the safety knowledge base, \<open>adapt_rules\<close> returns
  \<open>pose_allowed = True\<close>, \<open>risk_level = "low"\<close> and \<open>adapted_rules\<close> equal to
  \<open>base_rules\<close>, whatever the user's level and conditions: neither the contraindication
  check nor the tolerance adjustment runs.
\<close>

theorem adapt_rules_unknown_pose:
  "get_pose_data knowledge_base pose_name = None \<Longrightarrow>
   adapt_rules knowledge_base pose_name base_rules profile =
     \<lparr>pose_allowed = True, reason = None, adapted_rules = base_rules,
      safety_modifications = [], risk_level = ''low''\<rparr>"
  by (simp add: adapt_rules_def)

theorem adapt_rules_unknown_pose_witness:
  "get_pose_data sample_safety_kb ''bhujangasana'' = None
   \<and> adapt_rules sample_safety_kb ''bhujangasana'' (get_default_rules ''bhujangasana'')
        (sample_profile ''beginner'' [''recent_spinal_surgery'']) =
     \<lparr>pose_allowed = True, reason = None,
      adapted_rules = get_default_rules ''bhujangasana'',
      safety_modifications = [], risk_level = ''low''\<rparr>"
  using adapt_rules_unknown_pose [OF sample_bhujangasana] sample_bhujangasana by simp

text \<open>
  C4. For a pose with pose data in the safety knowledge base and a profile with at least
  one condition code in that pose's contraindication list, \<open>adapt_rules\<close> returns
  \<open>pose_allowed = False\<close>, \<open>risk_level = "high"\<close>, an empty \<open>adapted_rules\<close> and a
  reason naming one of the user's contraindicated conditions.
\<close>

theorem adapt_rules_contraindicated:
  assumes "get_pose_data knowledge_base pose_name = Some pd"
    and "contraindications pd = Some contra"
    and "c \<in> set (conditions profile)" and "c \<in> set contra"
  shows "pose_allowed (adapt_rules knowledge_base pose_name base_rules profile) = False
       \<and> risk_level (adapt_rules knowledge_base pose_name base_rules profile) = ''high''
       \<and> adapted_rules (adapt_rules knowledge_base pose_name base_rules profile) = []
       \<and> (\<exists>c'. c' \<in> set (conditions profile) \<and> c' \<in> set contra \<and>
            reason (adapt_rules knowledge_base pose_name base_rules profile)
              = Some (''Pose contraindicated due to '' @ c'))"
proof -
  from assms(3,4) have "\<exists>c \<in> set (conditions profile). c \<in> set contra" by blast
  from check_conditions_hit [OF this] obtain c' where
    c': "c' \<in> set (conditions profile)" "c' \<in> set contra"
    "check_conditions contra (conditions profile)
       = (False, Some (''Pose contraindicated due to '' @ c'))" by blast
  have nf: "\<not> pose_data_falsy pd" using assms(2) by (simp add: pose_data_falsy_def)
  have chk: "check_contraindications pd profile
       = (False, Some (''Pose contraindicated due to '' @ c'))"
    using c'(3) assms(2) by (simp add: check_contraindications_def get_conditions_def)
  show ?thesis using assms(1) nf chk c'(1,2)
    by (simp add: adapt_rules_def)
qed

theorem adapt_rules_contraindicated_witness:
  "get_pose_data sample_safety_kb ''parvatasana''
     = Some \<lparr>contraindications = Some [''high_bp'', ''heart_ailments''], other_keys = []\<rparr>
   \<and> ''high_bp'' \<in> set (conditions (sample_profile ''beginner'' [''back_pain'', ''high_bp'']))
   \<and> ''high_bp'' \<in> set [''high_bp'', ''heart_ailments'']
   \<and> pose_allowed (adapt_rules sample_safety_kb ''parvatasana''
        (get_default_rules ''parvatasana'')
        (sample_profile ''beginner'' [''back_pain'', ''high_bp''])) = False
   \<and> risk_level (adapt_rules sample_safety_kb ''parvatasana''
        (get_default_rules ''parvatasana'')
        (sample_profile ''beginner'' [''back_pain'', ''high_bp''])) = ''high''
   \<and> adapted_rules (adapt_rules sample_safety_kb ''parvatasana''
        (get_default_rules ''parvatasana'')
        (sample_profile ''beginner'' [''back_pain'', ''high_bp''])) = []"
proof -
  have h2: "contraindications
      \<lparr>contraindications = Some [''high_bp'', ''heart_ailments''], other_keys = []\<rparr>
      = Some [''high_bp'', ''heart_ailments'']" by simp
  have h3: "''high_bp'' \<in> set (conditions (sample_profile ''beginner'' [''back_pain'', ''high_bp'']))"
    by (simp add: sample_profile_def)
  have h4: "''high_bp'' \<in> set [''high_bp'', ''heart_ailments'']" by simp
  show ?thesis
    using adapt_rules_contraindicated [OF sample_parvatasana h2 h3 h4,
        of "get_default_rules ''parvatasana''"] sample_parvatasana h3 h4
    by simp
qed

text \<open>
  C2, as stated, fails for the level "intermediate": its \<open>angle_tolerance\<close> in
  \<open>level_adaptations\<close> is 5, so on a pose with safety data the lunge thresholds
  80, 110, 160 become 75, 115, 155.
\<close>

theorem adapt_rules_intermediate_counterexample:
  "pose_allowed (adapt_rules sample_safety_kb ''ashwa_sanchalanasana''
      (get_default_rules ''ashwa_sanchalanasana'') (sample_profile ''intermediate'' []))
   \<and> get_default_rules ''ashwa_sanchalanasana'' =
         [(''front_knee_angle_min'', PInt 80), (''front_knee_angle_max'', PInt 110),
          (''back_knee_angle_min'', PInt 160), (''spine_extension_min'', PInt 10)]
   \<and> adapted_rules (adapt_rules sample_safety_kb ''ashwa_sanchalanasana''
      (get_default_rules ''ashwa_sanchalanasana'') (sample_profile ''intermediate'' []))
      = [(''front_knee_angle_min'', PInt 75), (''front_knee_angle_max'', PInt 115),
          (''back_knee_angle_min'', PInt 155), (''spine_extension_min'', PInt 10)]"
  by (simp add: adapt_rules_def sample_lunge pose_data_falsy_def check_contraindications_def
      get_conditions_def get_level_def sample_profile_def tol_intermediate adjust_lunge)
     (simp add: lunge_rules)

text \<open>
  C2, amended. On an allowed pose, a level outside beginner, intermediate and advanced
  leaves every key in place and every threshold numerically equal to its base value.
  For "intermediate" on a pose with (non-empty) safety data the tolerance is 5: a
  threshold whose key contains "angle" is lowered by 5 when the key contains "min" and
  raised by 5 otherwise; the other thresholds keep their value.
\<close>

theorem adapt_rules_unknown_level_and_intermediate:
  assumes "pose_allowed (adapt_rules knowledge_base pose_name base_rules profile)"
  shows "(level profile \<notin> {''beginner'', ''intermediate'', ''advanced''} \<longrightarrow>
            map fst (adapted_rules (adapt_rules knowledge_base pose_name base_rules profile))
              = map fst base_rules
          \<and> map (num_of \<circ> snd)
                (adapted_rules (adapt_rules knowledge_base pose_name base_rules profile))
              = map (num_of \<circ> snd) base_rules)
       \<and> (level profile = ''intermediate''
            \<and> get_pose_data knowledge_base pose_name = Some pd \<and> \<not> pose_data_falsy pd
            \<and> i < length base_rules \<longrightarrow>
            fst (adapted_rules (adapt_rules knowledge_base pose_name base_rules profile) ! i)
              = fst (base_rules ! i)
          \<and> num_of (snd (adapted_rules
                (adapt_rules knowledge_base pose_name base_rules profile) ! i))
              = num_of (snd (base_rules ! i))
                + (if str_contains ''angle'' (fst (base_rules ! i))
                   then (if str_contains ''min'' (fst (base_rules ! i)) then - 5 else 5)
                   else 0))"
proof (intro conjI impI)
  assume lv: "level profile \<notin> {''beginner'', ''intermediate'', ''advanced''}"
  from adapt_rules_allowed_cases [OF assms] tol_other [OF lv] adjusted_zero [of base_rules]
  show "map fst (adapted_rules (adapt_rules knowledge_base pose_name base_rules profile))
              = map fst base_rules" by auto
  from adapt_rules_allowed_cases [OF assms] tol_other [OF lv] adjusted_zero [of base_rules]
  show "map (num_of \<circ> snd)
                (adapted_rules (adapt_rules knowledge_base pose_name base_rules profile))
              = map (num_of \<circ> snd) base_rules" by auto
next
  assume h: "level profile = ''intermediate''
            \<and> get_pose_data knowledge_base pose_name = Some pd \<and> \<not> pose_data_falsy pd
            \<and> i < length base_rules"
  then have eq: "adapted_rules (adapt_rules knowledge_base pose_name base_rules profile)
      = map (adjust_rule (PInt 5)) base_rules"
    using adapt_rules_with_data [OF _ _ assms, of pd] tol_intermediate by simp
  from h have i: "i < length base_rules" by simp
  show "fst (adapted_rules (adapt_rules knowledge_base pose_name base_rules profile) ! i)
              = fst (base_rules ! i)"
    using adjusted_shift [OF i, of 5] eq by simp
  show "num_of (snd (adapted_rules
                (adapt_rules knowledge_base pose_name base_rules profile) ! i))
              = num_of (snd (base_rules ! i))
                + (if str_contains ''angle'' (fst (base_rules ! i))
                   then (if str_contains ''min'' (fst (base_rules ! i)) then - 5 else 5)
                   else 0)"
    using adjusted_shift [OF i, of 5] eq by simp
qed

theorem adapt_rules_unknown_level_and_intermediate_witness:
  "pose_allowed (adapt_rules sample_safety_kb ''ashwa_sanchalanasana''
      (get_default_rules ''ashwa_sanchalanasana'') (sample_profile ''expert'' [''back_pain'']))
   \<and> level (sample_profile ''expert'' [''back_pain''])
         \<notin> {''beginner'', ''intermediate'', ''advanced''}
   \<and> map (num_of \<circ> snd) (adapted_rules (adapt_rules sample_safety_kb ''ashwa_sanchalanasana''
      (get_default_rules ''ashwa_sanchalanasana'') (sample_profile ''expert'' [''back_pain''])))
     = [80, 110, 160, 10]
   \<and> pose_allowed (adapt_rules sample_safety_kb ''ashwa_sanchalanasana''
      (get_default_rules ''ashwa_sanchalanasana'')
      (sample_profile ''intermediate'' [''back_pain'']))
   \<and> level (sample_profile ''intermediate'' [''back_pain'']) = ''intermediate''
   \<and> get_pose_data sample_safety_kb ''ashwa_sanchalanasana''
     = Some \<lparr>contraindications = Some [''recent_spinal_surgery''], other_keys = []\<rparr>
   \<and> \<not> pose_data_falsy
         \<lparr>contraindications = Some [''recent_spinal_surgery''], other_keys = []\<rparr>
   \<and> 2 < length (get_default_rules ''ashwa_sanchalanasana'')
   \<and> num_of (snd (adapted_rules (adapt_rules sample_safety_kb ''ashwa_sanchalanasana''
      (get_default_rules ''ashwa_sanchalanasana'')
      (sample_profile ''intermediate'' [''back_pain'']))
      ! 2)) = 155"
  using adapt_rules_unknown_level_and_intermediate [OF allowed_lunge, of "''expert''" _ 0]
    adapt_rules_unknown_level_and_intermediate [OF allowed_lunge, of "''intermediate''"
       "\<lparr>contraindications = Some [''recent_spinal_surgery''], other_keys = []\<rparr>" 2]
    sample_lunge not_falsy_lunge lunge_len allowed_lunge
  by (simp add: lunge_nth2 sample_profile_def) (simp add: lunge_rules)

text \<open>
  C5, as stated, fails on \<open>spine_extension_min\<close>: the adjustment is guarded by
  \<open>'angle' in key\<close>, so for a beginner this threshold of the lunge stays 10.
\<close>

theorem adapt_rules_beginner_counterexample:
  "pose_allowed (adapt_rules sample_safety_kb ''ashwa_sanchalanasana''
      (get_default_rules ''ashwa_sanchalanasana'') (sample_profile ''beginner'' []))
   \<and> map_of (get_default_rules ''ashwa_sanchalanasana'') ''spine_extension_min''
       = Some (PInt 10)
   \<and> map_of (adapted_rules (adapt_rules sample_safety_kb ''ashwa_sanchalanasana''
      (get_default_rules ''ashwa_sanchalanasana'') (sample_profile ''beginner'' [])))
      ''spine_extension_min'' = Some (PInt 10)"
  by (simp add: adapt_rules_def sample_lunge pose_data_falsy_def check_contraindications_def
      get_conditions_def get_level_def sample_profile_def tol_beginner adjust_lunge)
     (simp add: lunge_rules)

text \<open>
  C5, amended. On an allowed pose with (non-empty) safety data every key stays in place,
  and for a beginner a threshold whose key contains "angle" is lowered by exactly 10 when
  the key contains "min" and raised by 10 otherwise, while a key without "angle" (such as
  \<open>spine_extension_min\<close>) keeps its value; for an advanced profile the sign is reversed
  with magnitude 5 (angle "min" keys raised by 5, other angle keys lowered by 5).
\<close>

theorem adapt_rules_beginner_advanced:
  assumes "get_pose_data knowledge_base pose_name = Some pd" and "\<not> pose_data_falsy pd"
    and "pose_allowed (adapt_rules knowledge_base pose_name base_rules profile)"
    and "i < length base_rules"
  shows "fst (adapted_rules (adapt_rules knowledge_base pose_name base_rules profile) ! i)
              = fst (base_rules ! i)
       \<and> (level profile = ''beginner'' \<longrightarrow>
            num_of (snd (adapted_rules
                (adapt_rules knowledge_base pose_name base_rules profile) ! i))
              = num_of (snd (base_rules ! i))
                + (if str_contains ''angle'' (fst (base_rules ! i))
                   then (if str_contains ''min'' (fst (base_rules ! i)) then - 10 else 10)
                   else 0))
       \<and> (level profile = ''advanced'' \<longrightarrow>
            num_of (snd (adapted_rules
                (adapt_rules knowledge_base pose_name base_rules profile) ! i))
              = num_of (snd (base_rules ! i))
                + (if str_contains ''angle'' (fst (base_rules ! i))
                   then (if str_contains ''min'' (fst (base_rules ! i)) then 5 else - 5)
                   else 0))"
proof -
  note eq = adapt_rules_with_data [OF assms(1,2,3)]
  obtain t where t: "angle_tolerance_of (level profile) = PInt t"
    and tb: "level profile = ''beginner'' \<longrightarrow> t = 10"
    and ta: "level profile = ''advanced'' \<longrightarrow> t = - 5"
    using tol_beginner tol_advanced tol_intermediate tol_other [of "level profile"]
    by (cases "level profile \<in> {''beginner'', ''intermediate'', ''advanced''}") auto
  show ?thesis using adjusted_shift [OF assms(4), of t] eq t tb ta by auto
qed

theorem adapt_rules_beginner_advanced_witness:
  "get_pose_data sample_safety_kb ''ashwa_sanchalanasana''
     = Some \<lparr>contraindications = Some [''recent_spinal_surgery''], other_keys = []\<rparr>
   \<and> \<not> pose_data_falsy
         \<lparr>contraindications = Some [''recent_spinal_surgery''], other_keys = []\<rparr>
   \<and> 2 < length (get_default_rules ''ashwa_sanchalanasana'')
   \<and> get_default_rules ''ashwa_sanchalanasana'' ! 2 = (''back_knee_angle_min'', PInt 160)
   \<and> pose_allowed (adapt_rules sample_safety_kb ''ashwa_sanchalanasana''
      (get_default_rules ''ashwa_sanchalanasana'') (sample_profile ''beginner'' [''back_pain'']))
   \<and> level (sample_profile ''beginner'' [''back_pain'']) = ''beginner''
   \<and> num_of (snd (adapted_rules (adapt_rules sample_safety_kb ''ashwa_sanchalanasana''
      (get_default_rules ''ashwa_sanchalanasana'') (sample_profile ''beginner'' [''back_pain'']))
      ! 2)) = 150
   \<and> pose_allowed (adapt_rules sample_safety_kb ''ashwa_sanchalanasana''
      (get_default_rules ''ashwa_sanchalanasana'') (sample_profile ''advanced'' [''back_pain'']))
   \<and> level (sample_profile ''advanced'' [''back_pain'']) = ''advanced''
   \<and> num_of (snd (adapted_rules (adapt_rules sample_safety_kb ''ashwa_sanchalanasana''
      (get_default_rules ''ashwa_sanchalanasana'') (sample_profile ''advanced'' [''back_pain'']))
      ! 2)) = 165"
  using adapt_rules_beginner_advanced [OF sample_lunge not_falsy_lunge allowed_lunge lunge_len,
      of "''beginner''"]
    adapt_rules_beginner_advanced [OF sample_lunge not_falsy_lunge allowed_lunge lunge_len,
      of "''advanced''"]
    sample_lunge not_falsy_lunge lunge_len allowed_lunge
  by (simp add: lunge_nth2 sample_profile_def)

section \<open>Properties of the rule engine\<close>

lemma py_round2_zero: "py_round2 0 = 0"
  by (simp add: py_round2_def round_half_even_def)

lemma getitem_Some: "map_of d k = Some v \<Longrightarrow> getitem d k = Inr v"
  by (simp add: getitem_def)

lemma getitem_None: "map_of d k = None \<Longrightarrow> getitem d k = Inl (KeyError k)"
  by (simp add: getitem_def)

lemma angle_rule_absent:
  "map_of rules rule_key = None \<Longrightarrow>
   angle_rule rule_key lk rk g i rules joint_angles st = Inr st"
  by (simp add: angle_rule_def)

lemma angle_rule_asymmetric:
  assumes "map_of rules rule_key = Some thr"
    and "map_of joint_angles lk = Some l" and "map_of joint_angles rk = Some r"
    and "(num_of thr \<le> l) \<noteq> (num_of thr \<le> r)"
  shows "angle_rule rule_key lk rk g i rules joint_angles st =
     Inr (st\<lparr>total_rules := total_rules st + 2,
              failed_rules := setitem (failed_rules st) g False,
              issues := issues st @ [i]\<rparr>)"
  using assms by (auto simp: angle_rule_def getitem_Some Let_def)

lemma angle_rule_both_pass:
  assumes "map_of rules rule_key = Some thr"
    and "map_of joint_angles lk = Some l" and "map_of joint_angles rk = Some r"
    and "num_of thr \<le> l" and "num_of thr \<le> r"
  shows "angle_rule rule_key lk rk g i rules joint_angles st =
     Inr (st\<lparr>total_rules := total_rules st + 2,
              passed_rules := setitem (passed_rules st) g True,
              passed_count := passed_count st + 2\<rparr>)"
  using assms by (auto simp: angle_rule_def getitem_Some Let_def)

lemma only_key_lookup:
  "map fst rules = [k] \<Longrightarrow> k' \<noteq> k \<Longrightarrow> map_of rules k' = None"
  by (cases rules) auto

lemma evaluate_only_asymmetric_knees:
  assumes "map_of rules ''knee_angle_min'' = Some thr"
    and "map_of joint_angles ''left_knee_angle'' = Some l"
    and "map_of joint_angles ''right_knee_angle'' = Some r"
    and "(num_of thr \<le> l) \<noteq> (num_of thr \<le> r)"
    and "map fst rules = [''knee_angle_min'']"
  shows "evaluate_pose pn landmarks_dict joint_angles rules =
     Inr \<lparr>result_issues = [''knees_bent''], alignment_score = 0,
          result_passed_rules = [], result_failed_rules = [(''knees_extended'', False)]\<rparr>"
proof -
  have e: "map_of rules ''elbow_angle_min'' = None"
    using only_key_lookup [OF assms(5)] by simp
  have h: "map_of rules ''hip_height_above_shoulder'' = None"
    using only_key_lookup [OF assms(5)] by simp
  show ?thesis
    unfolding evaluate_pose_def knee_rule_def elbow_rule_def
    by (simp add: angle_rule_asymmetric [OF assms(1-4)] angle_rule_absent [OF e]
        hip_rule_def h finish_evaluation_def initial_eval_state_def py_round2_zero)
qed

lemma evaluate_only_asymmetric_elbows:
  assumes "map_of rules ''elbow_angle_min'' = Some thr"
    and "map_of joint_angles ''left_elbow_angle'' = Some l"
    and "map_of joint_angles ''right_elbow_angle'' = Some r"
    and "(num_of thr \<le> l) \<noteq> (num_of thr \<le> r)"
    and "map fst rules = [''elbow_angle_min'']"
  shows "evaluate_pose pn landmarks_dict joint_angles rules =
     Inr \<lparr>result_issues = [''elbows_bent''], alignment_score = 0,
          result_passed_rules = [], result_failed_rules = [(''elbows_extended'', False)]\<rparr>"
proof -
  have e: "map_of rules ''knee_angle_min'' = None"
    using only_key_lookup [OF assms(5)] by simp
  have h: "map_of rules ''hip_height_above_shoulder'' = None"
    using only_key_lookup [OF assms(5)] by simp
  show ?thesis
    unfolding evaluate_pose_def knee_rule_def elbow_rule_def
    by (simp add: angle_rule_asymmetric [OF assms(1-4)] angle_rule_absent [OF e]
        hip_rule_def h finish_evaluation_def initial_eval_state_def py_round2_zero)
qed

lemma angle_rule_Inl:
  "angle_rule rule_key lk rk g i rules joint_angles st = Inl e \<longleftrightarrow>
     map_of rules rule_key \<noteq> None \<and>
     ((map_of joint_angles lk = None \<and> e = KeyError lk) \<or>
      (map_of joint_angles lk \<noteq> None \<and> map_of joint_angles rk = None \<and> e = KeyError rk))"
  by (auto simp: angle_rule_def getitem_def Let_def split: option.splits)

lemma hip_rule_Inl:
  "hip_rule rules landmarks_dict st = Inl e \<longleftrightarrow>
     (\<exists>flag. map_of rules ''hip_height_above_shoulder'' = Some flag \<and> truthy flag) \<and>
     ((map_of landmarks_dict ''left_hip'' = None \<and> e = KeyError ''left_hip'') \<or>
      (map_of landmarks_dict ''left_hip'' \<noteq> None \<and>
       map_of landmarks_dict ''right_hip'' = None \<and> e = KeyError ''right_hip'') \<or>
      (map_of landmarks_dict ''left_hip'' \<noteq> None \<and>
       map_of landmarks_dict ''right_hip'' \<noteq> None \<and>
       map_of landmarks_dict ''left_shoulder'' = None \<and> e = KeyError ''left_shoulder'') \<or>
      (map_of landmarks_dict ''left_hip'' \<noteq> None \<and>
       map_of landmarks_dict ''right_hip'' \<noteq> None \<and>
       map_of landmarks_dict ''left_shoulder'' \<noteq> None \<and>
       map_of landmarks_dict ''right_shoulder'' = None \<and> e = KeyError ''right_shoulder''))"
  by (auto simp: hip_rule_def getitem_def Let_def split: option.splits)

lemma evaluate_pose_Inl:
  "evaluate_pose pn landmarks_dict joint_angles rules = Inl e \<longleftrightarrow>
     knee_rule rules joint_angles initial_eval_state = Inl e
     \<or> (\<exists>st1. knee_rule rules joint_angles initial_eval_state = Inr st1 \<and>
           (elbow_rule rules joint_angles st1 = Inl e
            \<or> (\<exists>st2. elbow_rule rules joint_angles st1 = Inr st2 \<and>
                  hip_rule rules landmarks_dict st2 = Inl e)))"
  by (auto simp: evaluate_pose_def split: sum.splits)

lemma angle_rule_Inr_keys:
  "angle_rule rule_key lk rk g i rules joint_angles st = Inr st' \<Longrightarrow>
   map_of rules rule_key \<noteq> None \<Longrightarrow>
   map_of joint_angles lk \<noteq> None \<and> map_of joint_angles rk \<noteq> None"
  by (auto simp: angle_rule_def getitem_def Let_def split: option.splits)

lemma angle_rule_total:
  "map_of rules rule_key = None \<or>
     (map_of joint_angles lk \<noteq> None \<and> map_of joint_angles rk \<noteq> None) \<Longrightarrow>
   \<exists>st'. angle_rule rule_key lk rk g i rules joint_angles st = Inr st'"
  by (auto simp: angle_rule_def getitem_def Let_def split: option.splits)

lemma hip_rule_Inr_keys:
  "hip_rule rules landmarks_dict st = Inr st' \<Longrightarrow>
   list_all (\<lambda>k. map_of landmarks_dict k \<noteq> None) (required_landmark_keys rules)"
  by (auto simp: hip_rule_def getitem_def Let_def required_landmark_keys_def
      split: option.splits if_splits)

lemma hip_rule_total:
  "list_all (\<lambda>k. map_of landmarks_dict k \<noteq> None) (required_landmark_keys rules) \<Longrightarrow>
   \<exists>st'. hip_rule rules landmarks_dict st = Inr st'"
  by (auto simp: hip_rule_def getitem_def Let_def required_landmark_keys_def
      split: option.splits if_splits)

lemma knee_rule_Inl_key:
  "knee_rule rules joint_angles st = Inl e \<Longrightarrow>
   \<exists>k. e = KeyError k \<and> k \<in> set (required_angle_keys rules) \<and> map_of joint_angles k = None"
  unfolding knee_rule_def angle_rule_Inl required_angle_keys_def by auto

lemma elbow_rule_Inl_key:
  "elbow_rule rules joint_angles st = Inl e \<Longrightarrow>
   \<exists>k. e = KeyError k \<and> k \<in> set (required_angle_keys rules) \<and> map_of joint_angles k = None"
  unfolding elbow_rule_def angle_rule_Inl required_angle_keys_def by auto

lemma hip_rule_Inl_key:
  "hip_rule rules landmarks_dict st = Inl e \<Longrightarrow>
   \<exists>k. e = KeyError k \<and> k \<in> set (required_landmark_keys rules)
        \<and> map_of landmarks_dict k = None"
  unfolding hip_rule_Inl required_landmark_keys_def by auto

lemma required_keys_presentD:
  assumes "required_keys_present rules joint_angles landmarks_dict"
  shows "map_of rules ''knee_angle_min'' = None \<or>
         (map_of joint_angles ''left_knee_angle'' \<noteq> None \<and>
          map_of joint_angles ''right_knee_angle'' \<noteq> None)"
    and "map_of rules ''elbow_angle_min'' = None \<or>
         (map_of joint_angles ''left_elbow_angle'' \<noteq> None \<and>
          map_of joint_angles ''right_elbow_angle'' \<noteq> None)"
    and "list_all (\<lambda>k. map_of landmarks_dict k \<noteq> None) (required_landmark_keys rules)"
  using assms
  by (auto simp: required_keys_present_def required_angle_keys_def split: if_splits)

lemma required_keys_presentI:
  assumes "map_of rules ''knee_angle_min'' \<noteq> None \<Longrightarrow>
         (map_of joint_angles ''left_knee_angle'' \<noteq> None \<and>
          map_of joint_angles ''right_knee_angle'' \<noteq> None)"
    and "map_of rules ''elbow_angle_min'' \<noteq> None \<Longrightarrow>
         (map_of joint_angles ''left_elbow_angle'' \<noteq> None \<and>
          map_of joint_angles ''right_elbow_angle'' \<noteq> None)"
    and "list_all (\<lambda>k. map_of landmarks_dict k \<noteq> None) (required_landmark_keys rules)"
  shows "required_keys_present rules joint_angles landmarks_dict"
  using assms
  by (auto simp: required_keys_present_def required_angle_keys_def)

lemma evaluate_pose_ok:
  assumes "required_keys_present rules joint_angles landmarks_dict"
  shows "\<exists>ev. evaluate_pose pn landmarks_dict joint_angles rules = Inr ev"
proof -
  note d = required_keys_presentD [OF assms]
  obtain st1 where k: "knee_rule rules joint_angles initial_eval_state = Inr st1"
    unfolding knee_rule_def using angle_rule_total [OF d(1)] by blast
  obtain st2 where el: "elbow_rule rules joint_angles st1 = Inr st2"
    unfolding elbow_rule_def using angle_rule_total [OF d(2)] by blast
  obtain st3 where h: "hip_rule rules landmarks_dict st2 = Inr st3"
    using hip_rule_total [OF d(3)] by blast
  show ?thesis by (simp add: evaluate_pose_def k el h)
qed

lemma evaluate_pose_err:
  assumes "\<not> required_keys_present rules joint_angles landmarks_dict"
  shows "\<exists>k. evaluate_pose pn landmarks_dict joint_angles rules = Inl (KeyError k) \<and>
           ((k \<in> set (required_angle_keys rules) \<and> map_of joint_angles k = None) \<or>
            (k \<in> set (required_landmark_keys rules) \<and> map_of landmarks_dict k = None))"
proof (cases "evaluate_pose pn landmarks_dict joint_angles rules")
  case (Inl e)
  then consider
      "knee_rule rules joint_angles initial_eval_state = Inl e"
    | st1 where "elbow_rule rules joint_angles st1 = Inl e"
    | st2 where "hip_rule rules landmarks_dict st2 = Inl e"
    unfolding evaluate_pose_Inl by blast
  then show ?thesis
  proof cases
    case 1
    from knee_rule_Inl_key [OF this] Inl show ?thesis by blast
  next
    case 2
    from elbow_rule_Inl_key [OF this] Inl show ?thesis by blast
  next
    case 3
    from hip_rule_Inl_key [OF this] Inl show ?thesis by blast
  qed
next
  case (Inr ev)
  then have no: "\<And>e. evaluate_pose pn landmarks_dict joint_angles rules \<noteq> Inl e" by simp
  obtain st1 where k: "knee_rule rules joint_angles initial_eval_state = Inr st1"
    using no by (cases "knee_rule rules joint_angles initial_eval_state")
      (auto simp: evaluate_pose_Inl)
  obtain st2 where el: "elbow_rule rules joint_angles st1 = Inr st2"
    using no k by (cases "elbow_rule rules joint_angles st1") (auto simp: evaluate_pose_Inl)
  obtain st3 where h: "hip_rule rules landmarks_dict st2 = Inr st3"
    using no k el by (cases "hip_rule rules landmarks_dict st2") (auto simp: evaluate_pose_Inl)
  have "required_keys_present rules joint_angles landmarks_dict"
  proof (rule required_keys_presentI)
    assume "map_of rules ''knee_angle_min'' \<noteq> None"
    then show "map_of joint_angles ''left_knee_angle'' \<noteq> None \<and>
          map_of joint_angles ''right_knee_angle'' \<noteq> None"
      using angle_rule_Inr_keys [OF k [unfolded knee_rule_def]] by blast
  next
    assume "map_of rules ''elbow_angle_min'' \<noteq> None"
    then show "map_of joint_angles ''left_elbow_angle'' \<noteq> None \<and>
          map_of joint_angles ''right_elbow_angle'' \<noteq> None"
      using angle_rule_Inr_keys [OF el [unfolded elbow_rule_def]] by blast
  next
    show "list_all (\<lambda>k. map_of landmarks_dict k \<noteq> None) (required_landmark_keys rules)"
      by (rule hip_rule_Inr_keys [OF h])
  qed
  with assms show ?thesis by simp
qed

lemma sample_angles_present:
  "required_keys_present (get_default_rules ''parvatasana'')
     [(''left_knee_angle'', 175), (''right_knee_angle'', 173),
      (''left_elbow_angle'', 178), (''right_elbow_angle'', 176)]
     [(''left_hip'', (35 / 100, 3 / 10, 0)), (''right_hip'', (65 / 100, 3 / 10, 0)),
      (''left_shoulder'', (3 / 10, 6 / 10, 0)), (''right_shoulder'', (7 / 10, 6 / 10, 0))]"
  by (simp add: required_keys_present_def required_angle_keys_def required_landmark_keys_def
      get_default_rules_def rules_map_def del: not_None_eq)

lemma sample_landmarks_missing:
  "\<not> required_keys_present (get_default_rules ''parvatasana'')
     [(''left_knee_angle'', 175), (''right_knee_angle'', 173),
      (''left_elbow_angle'', 178), (''right_elbow_angle'', 176)] []"
  by (simp add: required_keys_present_def required_angle_keys_def required_landmark_keys_def
      get_default_rules_def rules_map_def)

text \<open>
  C1, as stated, fails: with the left knee at 175, the right knee at 165 and
  \<open>knee_angle_min = 170\<close> as the only rule, the score is 0.0, not 50.0; no knee
  sub-rule is credited.
\<close>

theorem evaluate_pose_one_knee_counterexample:
  "evaluate_pose ''parvatasana'' []
     [(''left_knee_angle'', 175), (''right_knee_angle'', 165)]
     [(''knee_angle_min'', PInt 170)]
   = Inr \<lparr>result_issues = [''knees_bent''], alignment_score = 0,
          result_passed_rules = [], result_failed_rules = [(''knees_extended'', False)]\<rparr>"
  by (simp add: evaluate_pose_def knee_rule_def elbow_rule_def angle_rule_def hip_rule_def
      getitem_def finish_evaluation_def initial_eval_state_def py_round2_zero)

text \<open>
  C1, amended. When \<open>knee_angle_min\<close> is present and exactly one of the two knee angles
  meets the threshold, the knee block adds 2 to \<open>total_rules\<close> and nothing to
  \<open>passed_count\<close>, records \<open>knees_extended\<close> as failed and appends \<open>knees_bent\<close> once;
  with \<open>knee_angle_min\<close> as the only rule the alignment score is 0.0. The same
  all-or-nothing tally applies to \<open>elbow_angle_min\<close>.
\<close>

theorem asymmetric_angles_get_no_credit:
  "(map_of rules ''knee_angle_min'' = Some thr
      \<and> map_of joint_angles ''left_knee_angle'' = Some l
      \<and> map_of joint_angles ''right_knee_angle'' = Some r
      \<and> (num_of thr \<le> l) \<noteq> (num_of thr \<le> r) \<longrightarrow>
    knee_rule rules joint_angles st =
      Inr (st\<lparr>total_rules := total_rules st + 2,
               failed_rules := setitem (failed_rules st) ''knees_extended'' False,
               issues := issues st @ [''knees_bent'']\<rparr>)
    \<and> (map fst rules = [''knee_angle_min''] \<longrightarrow>
         evaluate_pose pn landmarks_dict joint_angles rules =
           Inr \<lparr>result_issues = [''knees_bent''], alignment_score = 0,
                result_passed_rules = [],
                result_failed_rules = [(''knees_extended'', False)]\<rparr>))
   \<and> (map_of rules ''elbow_angle_min'' = Some thr
      \<and> map_of joint_angles ''left_elbow_angle'' = Some l
      \<and> map_of joint_angles ''right_elbow_angle'' = Some r
      \<and> (num_of thr \<le> l) \<noteq> (num_of thr \<le> r) \<longrightarrow>
    elbow_rule rules joint_angles st =
      Inr (st\<lparr>total_rules := total_rules st + 2,
               failed_rules := setitem (failed_rules st) ''elbows_extended'' False,
               issues := issues st @ [''elbows_bent'']\<rparr>)
    \<and> (map fst rules = [''elbow_angle_min''] \<longrightarrow>
         evaluate_pose pn landmarks_dict joint_angles rules =
           Inr \<lparr>result_issues = [''elbows_bent''], alignment_score = 0,
                result_passed_rules = [],
                result_failed_rules = [(''elbows_extended'', False)]\<rparr>))"
proof (intro conjI impI)
  assume h: "map_of rules ''knee_angle_min'' = Some thr
      \<and> map_of joint_angles ''left_knee_angle'' = Some l
      \<and> map_of joint_angles ''right_knee_angle'' = Some r
      \<and> (num_of thr \<le> l) \<noteq> (num_of thr \<le> r)"
  then have h1: "map_of rules ''knee_angle_min'' = Some thr"
    and h2: "map_of joint_angles ''left_knee_angle'' = Some l"
    and h3: "map_of joint_angles ''right_knee_angle'' = Some r"
    and h4: "(num_of thr \<le> l) \<noteq> (num_of thr \<le> r)" by blast+
  show "knee_rule rules joint_angles st =
      Inr (st\<lparr>total_rules := total_rules st + 2,
               failed_rules := setitem (failed_rules st) ''knees_extended'' False,
               issues := issues st @ [''knees_bent'']\<rparr>)"
    unfolding knee_rule_def by (rule angle_rule_asymmetric [OF h1 h2 h3 h4])
  assume only: "map fst rules = [''knee_angle_min'']"
  show "evaluate_pose pn landmarks_dict joint_angles rules =
           Inr \<lparr>result_issues = [''knees_bent''], alignment_score = 0,
                result_passed_rules = [],
                result_failed_rules = [(''knees_extended'', False)]\<rparr>"
    by (rule evaluate_only_asymmetric_knees [OF h1 h2 h3 h4 only])
next
  assume h: "map_of rules ''elbow_angle_min'' = Some thr
      \<and> map_of joint_angles ''left_elbow_angle'' = Some l
      \<and> map_of joint_angles ''right_elbow_angle'' = Some r
      \<and> (num_of thr \<le> l) \<noteq> (num_of thr \<le> r)"
  then have h1: "map_of rules ''elbow_angle_min'' = Some thr"
    and h2: "map_of joint_angles ''left_elbow_angle'' = Some l"
    and h3: "map_of joint_angles ''right_elbow_angle'' = Some r"
    and h4: "(num_of thr \<le> l) \<noteq> (num_of thr \<le> r)" by blast+
  show "elbow_rule rules joint_angles st =
      Inr (st\<lparr>total_rules := total_rules st + 2,
               failed_rules := setitem (failed_rules st) ''elbows_extended'' False,
               issues := issues st @ [''elbows_bent'']\<rparr>)"
    unfolding elbow_rule_def by (rule angle_rule_asymmetric [OF h1 h2 h3 h4])
  assume only: "map fst rules = [''elbow_angle_min'']"
  show "evaluate_pose pn landmarks_dict joint_angles rules =
           Inr \<lparr>result_issues = [''elbows_bent''], alignment_score = 0,
                result_passed_rules = [],
                result_failed_rules = [(''elbows_extended'', False)]\<rparr>"
    by (rule evaluate_only_asymmetric_elbows [OF h1 h2 h3 h4 only])
qed

theorem asymmetric_angles_get_no_credit_witness:
  "map_of [(''knee_angle_min'', PInt 170)] ''knee_angle_min'' = Some (PInt 170)
   \<and> map_of [(''left_knee_angle'', 175 :: real), (''right_knee_angle'', 165)]
        ''left_knee_angle'' = Some 175
   \<and> map_of [(''left_knee_angle'', 175 :: real), (''right_knee_angle'', 165)]
        ''right_knee_angle'' = Some 165
   \<and> (num_of (PInt 170) \<le> 175) \<noteq> (num_of (PInt 170) \<le> 165)
   \<and> map fst [(''knee_angle_min'', PInt 170)] = [''knee_angle_min'']
   \<and> passed_count (case knee_rule [(''knee_angle_min'', PInt 170)]
        [(''left_knee_angle'', 175), (''right_knee_angle'', 165)] initial_eval_state of
          Inr st' \<Rightarrow> st' | Inl e \<Rightarrow> initial_eval_state) = 0
   \<and> total_rules (case knee_rule [(''knee_angle_min'', PInt 170)]
        [(''left_knee_angle'', 175), (''right_knee_angle'', 165)] initial_eval_state of
          Inr st' \<Rightarrow> st' | Inl e \<Rightarrow> initial_eval_state) = 2
   \<and> evaluate_pose ''parvatasana'' []
        [(''left_knee_angle'', 175), (''right_knee_angle'', 165)]
        [(''knee_angle_min'', PInt 170)] =
      Inr \<lparr>result_issues = [''knees_bent''], alignment_score = 0,
           result_passed_rules = [], result_failed_rules = [(''knees_extended'', False)]\<rparr>
   \<and> map_of [(''elbow_angle_min'', PInt 170)] ''elbow_angle_min'' = Some (PInt 170)
   \<and> map_of [(''left_elbow_angle'', 160 :: real), (''right_elbow_angle'', 178)]
        ''left_elbow_angle'' = Some 160
   \<and> map_of [(''left_elbow_angle'', 160 :: real), (''right_elbow_angle'', 178)]
        ''right_elbow_angle'' = Some 178
   \<and> (num_of (PInt 170) \<le> 160) \<noteq> (num_of (PInt 170) \<le> 178)
   \<and> map fst [(''elbow_angle_min'', PInt 170)] = [''elbow_angle_min'']
   \<and> evaluate_pose ''parvatasana'' []
        [(''left_elbow_angle'', 160), (''right_elbow_angle'', 178)]
        [(''elbow_angle_min'', PInt 170)] =
      Inr \<lparr>result_issues = [''elbows_bent''], alignment_score = 0,
           result_passed_rules = [], result_failed_rules = [(''elbows_extended'', False)]\<rparr>"
  using asymmetric_angles_get_no_credit
      [of "[(''knee_angle_min'', PInt 170)]" "PInt 170"
          "[(''left_knee_angle'', 175), (''right_knee_angle'', 165)]" 175 165
          initial_eval_state "''parvatasana''" "[]"]
    asymmetric_angles_get_no_credit
      [of "[(''elbow_angle_min'', PInt 170)]" "PInt 170"
          "[(''left_elbow_angle'', 160), (''right_elbow_angle'', 178)]" 160 178
          initial_eval_state "''parvatasana''" "[]"]
  by (simp add: initial_eval_state_def)

text \<open>
  C3, as stated, fails: with \<open>knee_angle_min\<close> present and \<open>left_knee_angle\<close> missing
  from the joint angles, \<open>evaluate_pose\<close> raises \<open>KeyError\<close>; so it does with the default
  rules of parvatasana and no landmarks.
\<close>

theorem evaluate_pose_missing_key_counterexample:
  "evaluate_pose ''parvatasana'' [] [(''right_knee_angle'', 175)]
     [(''knee_angle_min'', PInt 170)] = Inl (KeyError ''left_knee_angle'')"
  by (simp add: evaluate_pose_def knee_rule_def angle_rule_def getitem_def)

theorem evaluate_pose_missing_landmark_counterexample:
  "evaluate_pose ''parvatasana'' []
     [(''left_knee_angle'', 175), (''right_knee_angle'', 173),
      (''left_elbow_angle'', 178), (''right_elbow_angle'', 176)]
     (get_default_rules ''parvatasana'') = Inl (KeyError ''left_hip'')"
  by (simp add: evaluate_pose_def knee_rule_def elbow_rule_def angle_rule_def hip_rule_def
      getitem_def get_default_rules_def rules_map_def initial_eval_state_def)

text \<open>
  C3, amended. \<open>evaluate_pose\<close> returns a well-formed result when every key read by a
  rule present in \<open>rules\<close> is in the input maps; when one is missing it raises
  \<open>KeyError\<close> for a missing required key, and the rule is not skipped.
\<close>

theorem evaluate_pose_result_iff_keys_present:
  "(required_keys_present rules joint_angles landmarks_dict \<longrightarrow>
      (\<exists>ev. evaluate_pose pn landmarks_dict joint_angles rules = Inr ev))
   \<and> (\<not> required_keys_present rules joint_angles landmarks_dict \<longrightarrow>
      (\<exists>k. evaluate_pose pn landmarks_dict joint_angles rules = Inl (KeyError k) \<and>
           ((k \<in> set (required_angle_keys rules) \<and> map_of joint_angles k = None) \<or>
            (k \<in> set (required_landmark_keys rules) \<and> map_of landmarks_dict k = None))))"
  using evaluate_pose_ok evaluate_pose_err by blast

theorem evaluate_pose_result_iff_keys_present_witness:
  "required_keys_present (get_default_rules ''parvatasana'')
     [(''left_knee_angle'', 175), (''right_knee_angle'', 173),
      (''left_elbow_angle'', 178), (''right_elbow_angle'', 176)]
     [(''left_hip'', (35 / 100, 3 / 10, 0)), (''right_hip'', (65 / 100, 3 / 10, 0)),
      (''left_shoulder'', (3 / 10, 6 / 10, 0)), (''right_shoulder'', (7 / 10, 6 / 10, 0))]
   \<and> (\<exists>ev. evaluate_pose ''parvatasana''
     [(''left_hip'', (35 / 100, 3 / 10, 0)), (''right_hip'', (65 / 100, 3 / 10, 0)),
      (''left_shoulder'', (3 / 10, 6 / 10, 0)), (''right_shoulder'', (7 / 10, 6 / 10, 0))]
     [(''left_knee_angle'', 175), (''right_knee_angle'', 173),
      (''left_elbow_angle'', 178), (''right_elbow_angle'', 176)]
     (get_default_rules ''parvatasana'') = Inr ev)
   \<and> \<not> required_keys_present (get_default_rules ''parvatasana'')
     [(''left_knee_angle'', 175), (''right_knee_angle'', 173),
      (''left_elbow_angle'', 178), (''right_elbow_angle'', 176)] []
   \<and> (\<exists>k. evaluate_pose ''parvatasana'' []
     [(''left_knee_angle'', 175), (''right_knee_angle'', 173),
      (''left_elbow_angle'', 178), (''right_elbow_angle'', 176)]
     (get_default_rules ''parvatasana'') = Inl (KeyError k))"
  using evaluate_pose_result_iff_keys_present
      [of "get_default_rules ''parvatasana''"
     "[(''left_knee_angle'', 175), (''right_knee_angle'', 173),
      (''left_elbow_angle'', 178), (''right_elbow_angle'', 176)]"
     "[(''left_hip'', (35 / 100, 3 / 10, 0)), (''right_hip'', (65 / 100, 3 / 10, 0)),
      (''left_shoulder'', (3 / 10, 6 / 10, 0)), (''right_shoulder'', (7 / 10, 6 / 10, 0))]"
     "''parvatasana''"]
    evaluate_pose_result_iff_keys_present
      [of "get_default_rules ''parvatasana''"
     "[(''left_knee_angle'', 175), (''right_knee_angle'', 173),
      (''left_elbow_angle'', 178), (''right_elbow_angle'', 176)]" "[]" "''parvatasana''"]
    sample_angles_present sample_landmarks_missing
  by blast

section \<open>Properties of the correction engine\<close>

text \<open>
  C8, as stated, fails for a pose name missing from the corrections knowledge base: three
  issues still give priority "low".
\<close>

theorem generate_corrections_unknown_pose_counterexample:
  "priority_level (generate_corrections [] ''parvatasana''
      [''knees_bent'', ''elbows_bent'', ''hips_low'']) = ''low''
   \<and> 2 < length [''knees_bent'', ''elbows_bent'', ''hips_low'']"
  by (simp add: generate_corrections_def)

text \<open>
  C8, amended. For a pose with a (non-empty) entry in the corrections knowledge base,
  \<open>generate_corrections\<close> returns priority "medium" if and only if the issue list has more
  than 2 issues, and "low" otherwise; for a pose with no entry (or an empty one) the
  priority is "low" whatever the issue list.
\<close>

theorem generate_corrections_priority:
  "(map_of knowledge_base pn = Some pk \<and> \<not> pose_knowledge_falsy pk \<longrightarrow>
      (priority_level (generate_corrections knowledge_base pn issue_list) = ''medium''
         \<longleftrightarrow> 2 < length issue_list)
      \<and> (priority_level (generate_corrections knowledge_base pn issue_list) = ''low''
         \<longleftrightarrow> length issue_list \<le> 2))
   \<and> (map_of knowledge_base pn = None
        \<or> (\<exists>pk'. map_of knowledge_base pn = Some pk' \<and> pose_knowledge_falsy pk') \<longrightarrow>
      priority_level (generate_corrections knowledge_base pn issue_list) = ''low'')"
  by (auto simp: generate_corrections_def Let_def)

theorem generate_corrections_priority_witness:
  "map_of [(''parvatasana'',
        \<lparr>correction_library = Some [(''knees_bent'', ''Straighten your knees.'')],
         knowledge_other_keys = []\<rparr>)] ''parvatasana''
     = Some \<lparr>correction_library = Some [(''knees_bent'', ''Straighten your knees.'')],
         knowledge_other_keys = []\<rparr>
   \<and> \<not> pose_knowledge_falsy
         \<lparr>correction_library = Some [(''knees_bent'', ''Straighten your knees.'')],
         knowledge_other_keys = []\<rparr>
   \<and> priority_level (generate_corrections [(''parvatasana'',
        \<lparr>correction_library = Some [(''knees_bent'', ''Straighten your knees.'')],
         knowledge_other_keys = []\<rparr>)] ''parvatasana''
        [''knees_bent'', ''elbows_bent'', ''hips_low'']) = ''medium''
   \<and> priority_level (generate_corrections [(''parvatasana'',
        \<lparr>correction_library = Some [(''knees_bent'', ''Straighten your knees.'')],
         knowledge_other_keys = []\<rparr>)] ''parvatasana''
        [''knees_bent'', ''elbows_bent'']) = ''low''
   \<and> map_of [(''parvatasana'',
        \<lparr>correction_library = Some [(''knees_bent'', ''Straighten your knees.'')],
         knowledge_other_keys = []\<rparr>)] ''bhujangasana'' = None
   \<and> priority_level (generate_corrections [(''parvatasana'',
        \<lparr>correction_library = Some [(''knees_bent'', ''Straighten your knees.'')],
         knowledge_other_keys = []\<rparr>)] ''bhujangasana''
        [''knees_bent'', ''elbows_bent'', ''hips_low'']) = ''low''"
  using generate_corrections_priority [of "[(''parvatasana'',
        \<lparr>correction_library = Some [(''knees_bent'', ''Straighten your knees.'')],
         knowledge_other_keys = []\<rparr>)]" "''parvatasana''"
        "\<lparr>correction_library = Some [(''knees_bent'', ''Straighten your knees.'')],
         knowledge_other_keys = []\<rparr>" "[''knees_bent'', ''elbows_bent'', ''hips_low'']"]
    generate_corrections_priority [of "[(''parvatasana'',
        \<lparr>correction_library = Some [(''knees_bent'', ''Straighten your knees.'')],
         knowledge_other_keys = []\<rparr>)]" "''parvatasana''"
        "\<lparr>correction_library = Some [(''knees_bent'', ''Straighten your knees.'')],
         knowledge_other_keys = []\<rparr>" "[''knees_bent'', ''elbows_bent'']"]
    generate_corrections_priority [of "[(''parvatasana'',
        \<lparr>correction_library = Some [(''knees_bent'', ''Straighten your knees.'')],
         knowledge_other_keys = []\<rparr>)]" "''bhujangasana''" _
         "[''knees_bent'', ''elbows_bent'', ''hips_low'']"]
  by (simp add: pose_knowledge_falsy_def)

section \<open>Properties of the progress tracker\<close>

lemma length_map_filter_le: "length (List.map_filter f xs) \<le> length xs"
  by (induction xs) (auto simp: List.map_filter_simps split: option.splits)

lemma side_variances_short:
  assumes "length angles_list < 10"
  shows "side_variances angles_list = []"
proof -
  have "\<not> 10 \<le> length (List.map_filter (\<lambda>angles. map_of angles key) angles_list)" for key
    using length_map_filter_le [of "\<lambda>angles. map_of angles key" angles_list] assms by simp
  then show ?thesis by (simp add: side_variances_def)
qed

lemma length_py_last_le: "length (py_last n xs) \<le> length xs"
  by (simp add: py_last_def)

lemma left_only_update:
  "left_angles_history (update left_only_frame t)
     = left_angles_history t @ [[(''left_knee_angle'', 170)]]"
  "right_angles_history (update left_only_frame t) = right_angles_history t"
  by (simp_all add: left_only_frame_def update_def track_angles_def
      update_fatigue_detection_def Let_def)

lemma left_only_session_hist:
  "left_angles_history left_only_session = replicate 10 [(''left_knee_angle'', 170)]"
  "right_angles_history left_only_session = []"
  by (simp_all add: left_only_session_def eval_nat_numeral left_only_update
      start_session_def init_tracker_def)

lemma left_only_session_variances:
  "side_variances (py_last 50 (left_angles_history left_only_session)) = [0]"
  by (simp add: left_only_session_hist py_last_def side_variances_def eval_nat_numeral
      List.map_filter_simps np_var_def np_mean_def Let_def)

lemma py_round2_100: "py_round2 100 = 100"
  by (simp add: py_round2_def round_half_even_def Let_def)

lemma left_only_session_right_variances:
  "side_variances (py_last 50 (right_angles_history left_only_session)) = []"
  by (simp add: left_only_session_hist py_last_def side_variances_def)

lemma left_only_session_long: "\<not> length (left_angles_history left_only_session) < 10"
  by (simp add: left_only_session_hist)

text \<open>
  C7, as stated, fails when only the right-side history is short: after ten frames that
  carry a left knee angle and no right-side angle, the right history is empty and the
  stability is 100.0.
\<close>

theorem compute_stability_left_only_counterexample:
  "length (right_angles_history left_only_session) < 10
   \<and> compute_stability left_only_session = 100"
proof
  show "length (right_angles_history left_only_session) < 10"
    by (simp add: left_only_session_hist)
  show "compute_stability left_only_session = 100"
    by (simp add: compute_stability_def left_only_session_variances
        left_only_session_right_variances left_only_session_long py_round2_100 np_mean_def)
qed

text \<open>
  C7, amended. \<open>compute_stability\<close> returns exactly 0.0 whenever the left-side history
  has fewer than 10 samples. A right-side history with fewer than 10 samples only
  contributes no variance: the result is then computed from the left side alone (0.0
  when no left key has 10 values, else 100 minus the mean left variance, floored at 0
  and rounded).
\<close>

theorem compute_stability_short_history:
  "(length (left_angles_history t) < 10 \<longrightarrow> compute_stability t = 0)
   \<and> (length (right_angles_history t) < 10 \<longrightarrow>
        compute_stability t =
          (if length (left_angles_history t) < 10
              \<or> side_variances (py_last 50 (left_angles_history t)) = [] then 0
           else py_round2 (max 0 (100 -
                  np_mean (side_variances (py_last 50 (left_angles_history t)))))))"
proof (intro conjI impI)
  assume "length (left_angles_history t) < 10"
  then show "compute_stability t = 0" by (simp add: compute_stability_def)
next
  assume r: "length (right_angles_history t) < 10"
  have "length (py_last 50 (right_angles_history t)) < 10"
    using r length_py_last_le [of 50 "right_angles_history t"] by simp
  then have "side_variances (py_last 50 (right_angles_history t)) = []"
    by (rule side_variances_short)
  then show "compute_stability t =
          (if length (left_angles_history t) < 10
              \<or> side_variances (py_last 50 (left_angles_history t)) = [] then 0
           else py_round2 (max 0 (100 -
                  np_mean (side_variances (py_last 50 (left_angles_history t))))))"
    by (simp add: compute_stability_def Let_def)
qed

theorem compute_stability_short_history_witness:
  "length (left_angles_history (update left_only_frame (start_session 0 0 init_tracker))) < 10
   \<and> compute_stability (update left_only_frame (start_session 0 0 init_tracker)) = 0
   \<and> length (right_angles_history left_only_session) < 10
   \<and> compute_stability left_only_session = 100"
proof -
  have a: "length (left_angles_history
             (update left_only_frame (start_session 0 0 init_tracker))) < 10"
    by (simp add: left_only_update start_session_def init_tracker_def)
  have b: "length (right_angles_history left_only_session) < 10"
    by (simp add: left_only_session_hist)
  note c = left_only_session_long
  show ?thesis
    using compute_stability_short_history
        [of "update left_only_frame (start_session 0 0 init_tracker)"]
      compute_stability_short_history [of left_only_session] a b c
    by (simp add: left_only_session_variances py_round2_100 np_mean_def)
qed

lemma track_angles_fatigue:
  "fatigue_window (track_angles ja t) = fatigue_window t"
  "fatigue_detected (track_angles ja t) = fatigue_detected t"
  by (simp_all add: track_angles_def Let_def split: option.splits)

lemma fatigue_window_update:
  "fatigue_window (update fm t)
     = deque_append 24 (fatigue_window t) (frame_alignment_score fm)"
  by (simp add: update_def update_fatigue_detection_def Let_def track_angles_fatigue)

lemma fatigue_detected_update:
  "fatigue_detected (update fm t) \<longleftrightarrow>
     fatigue_detected t \<or>
     (24 \<le> length (fatigue_window (update fm t))
      \<and> 70 < np_mean (take 12 (fatigue_window (update fm t)))
      \<and> np_mean (drop 12 (fatigue_window (update fm t)))
          < np_mean (take 12 (fatigue_window (update fm t))) - 15)"
  unfolding fatigue_window_update
  by (auto simp: update_def update_fatigue_detection_def Let_def track_angles_fatigue)

lemma fatigue_sticky: "fatigue_detected t \<Longrightarrow> fatigue_detected (update_all t fms)"
  by (induction fms arbitrary: t) (simp_all add: fatigue_detected_update)

lemma deque_append_short:
  "length d < maxlen \<Longrightarrow> deque_append maxlen d x = d @ [x]"
  by (simp add: deque_append_def)

lemma fatigue_window_short:
  "length (fatigue_window t) + length fms \<le> 24 \<Longrightarrow>
   fatigue_window (update_all t fms)
     = fatigue_window t @ map frame_alignment_score fms"
proof (induction fms arbitrary: t)
  case Nil
  then show ?case by simp
next
  case (Cons fm fms)
  have w: "fatigue_window (update fm t) = fatigue_window t @ [frame_alignment_score fm]"
    using Cons.prems by (simp add: fatigue_window_update deque_append_short)
  have "fatigue_window (update_all (update fm t) fms)
      = fatigue_window (update fm t) @ map frame_alignment_score fms"
    using Cons.prems w by (intro Cons.IH) simp
  then show ?case by (simp add: w)
qed

lemma no_fatigue_before_full:
  "\<not> fatigue_detected t \<Longrightarrow> length (fatigue_window t) + length fms < 24 \<Longrightarrow>
   \<not> fatigue_detected (update_all t fms)"
proof (induction fms arbitrary: t)
  case Nil
  then show ?case by simp
next
  case (Cons fm fms)
  have w: "fatigue_window (update fm t) = fatigue_window t @ [frame_alignment_score fm]"
    using Cons.prems by (simp add: fatigue_window_update deque_append_short)
  have nf: "\<not> fatigue_detected (update fm t)"
    using Cons.prems by (simp add: fatigue_detected_update w)
  show ?case using Cons.prems w by (simp add: Cons.IH [OF nf])
qed

lemma start_session_fatigue:
  "fatigue_window (start_session now1 now2 t) = []"
  "\<not> fatigue_detected (start_session now1 now2 t)"
  by (simp_all add: start_session_def)

lemma declining_window:
  "fatigue_window declining_session = replicate 12 85 @ replicate 11 60"
  unfolding declining_session_def
  by (subst fatigue_window_short)
     (simp_all add: start_session_fatigue frame_with_score_def)

lemma update_all_snoc: "update_all t (fms @ [fm]) = update fm (update_all t fms)"
  by (induction fms arbitrary: t) simp_all

lemma session_window:
  "fatigue_window (update_all (start_session now1 now2 t0) fms)
     = drop (length fms - 24) (map frame_alignment_score fms)"
proof (induction fms rule: rev_induct)
  case Nil
  then show ?case by (simp add: start_session_fatigue)
next
  case (snoc fm fms)
  have a: "length fms - (length fms - 24 + 23) + (length fms - 24) = length fms - 23"
    by arith
  show ?case
    by (simp add: update_all_snoc fatigue_window_update snoc.IH deque_append_def a)
qed

lemma np_mean_12: "length xs = 12 \<Longrightarrow> np_mean xs = sum_list xs / 12"
  by (simp add: np_mean_def)

lemma session_flag_step:
  "fatigue_detected (update_all (start_session now1 now2 t0) (fms @ [fm])) \<longleftrightarrow>
     fatigue_detected (update_all (start_session now1 now2 t0) fms)
     \<or> (24 \<le> length fms + 1
        \<and> 70 < sum_list (take 12 (drop (length fms + 1 - 24)
                    (map frame_alignment_score (fms @ [fm])))) / 12
        \<and> sum_list (drop 12 (drop (length fms + 1 - 24)
                    (map frame_alignment_score (fms @ [fm])))) / 12
            < sum_list (take 12 (drop (length fms + 1 - 24)
                    (map frame_alignment_score (fms @ [fm])))) / 12 - 15)"
proof -
  let ?w = "drop (length fms + 1 - 24) (map frame_alignment_score (fms @ [fm]))"
  have w: "fatigue_window (update fm (update_all (start_session now1 now2 t0) fms)) = ?w"
    using session_window [of now1 now2 t0 "fms @ [fm]"] by (simp add: update_all_snoc)
  have len: "24 \<le> length ?w \<longleftrightarrow> 24 \<le> length fms + 1" by auto
  have m1: "np_mean (take 12 ?w) = sum_list (take 12 ?w) / 12" if "24 \<le> length fms + 1"
    using that by (intro np_mean_12) auto
  have m2: "np_mean (drop 12 ?w) = sum_list (drop 12 ?w) / 12" if "24 \<le> length fms + 1"
    using that by (intro np_mean_12) auto
  show ?thesis
    unfolding update_all_snoc fatigue_detected_update [of fm] w len
    using m1 m2 by auto
qed

lemma session_flag:
  "fatigue_detected (update_all (start_session now1 now2 t0) fms) \<longleftrightarrow>
     (\<exists>n. 24 \<le> n \<and> n \<le> length fms
        \<and> 70 < sum_list (take 12 (drop (n - 24)
                    (take n (map frame_alignment_score fms)))) / 12
        \<and> sum_list (drop 12 (drop (n - 24)
                    (take n (map frame_alignment_score fms)))) / 12
            < sum_list (take 12 (drop (n - 24)
                    (take n (map frame_alignment_score fms)))) / 12 - 15)"
proof (induction fms rule: rev_induct)
  case Nil
  then show ?case by (simp add: start_session_fatigue)
next
  case (snoc fm fms)
  define P where "P w \<longleftrightarrow> 70 < sum_list (take 12 w) / 12
        \<and> sum_list (drop 12 w) / 12 < sum_list (take 12 w) / 12 - 15" for w :: "real list"
  let ?sc = "map frame_alignment_score"
  have ih: "fatigue_detected (update_all (start_session now1 now2 t0) fms) \<longleftrightarrow>
      (\<exists>n. 24 \<le> n \<and> n \<le> length fms \<and> P (drop (n - 24) (take n (?sc fms))))"
    using snoc.IH by (simp add: P_def)
  have step: "fatigue_detected (update_all (start_session now1 now2 t0) (fms @ [fm])) \<longleftrightarrow>
     fatigue_detected (update_all (start_session now1 now2 t0) fms)
     \<or> (24 \<le> length fms + 1 \<and> P (drop (length fms + 1 - 24) (?sc (fms @ [fm]))))"
    using session_flag_step [of now1 now2 t0 fms fm] by (simp add: P_def)
  have old: "P (drop (n - 24) (take n (?sc (fms @ [fm]))))
          \<longleftrightarrow> P (drop (n - 24) (take n (?sc fms)))" if "n \<le> length fms" for n
    using that by simp
  have new: "drop (length fms + 1 - 24) (take (length fms + 1) (?sc (fms @ [fm])))
      = drop (length fms + 1 - 24) (?sc (fms @ [fm]))" by simp
  have "(\<exists>n. 24 \<le> n \<and> n \<le> length (fms @ [fm])
            \<and> P (drop (n - 24) (take n (?sc (fms @ [fm])))))
      \<longleftrightarrow> (\<exists>n. 24 \<le> n \<and> n \<le> length fms \<and> P (drop (n - 24) (take n (?sc fms))))
          \<or> (24 \<le> length fms + 1 \<and> P (drop (length fms + 1 - 24) (?sc (fms @ [fm]))))"
    (is "?L \<longleftrightarrow> ?A \<or> ?B")
  proof
    assume ?L
    then obtain n where n: "24 \<le> n" "n \<le> length fms + 1"
      "P (drop (n - 24) (take n (?sc (fms @ [fm]))))" by auto
    show "?A \<or> ?B"
    proof (cases "n \<le> length fms")
      case True
      with n old [OF True] show ?thesis by blast
    next
      case False
      with n have "n = length fms + 1" by simp
      with n new show ?thesis by simp
    qed
  next
    assume "?A \<or> ?B"
    then show ?L
    proof
      assume ?A
      then obtain n where n: "24 \<le> n" "n \<le> length fms"
        "P (drop (n - 24) (take n (?sc fms)))" by blast
      with old [of n] have "P (drop (n - 24) (take n (?sc (fms @ [fm]))))" by blast
      with n show ?L by (intro exI [of _ n]) simp
    next
      assume ?B
      with new show ?L by (intro exI [of _ "length fms + 1"]) simp
    qed
  qed
  with ih step show ?case by (simp add: P_def)
qed

lemma update_window_explicit:
  "fatigue_window (update fm t)
     = drop (length (fatigue_window t) + 1 - 24)
         (fatigue_window t @ [frame_alignment_score fm])"
  by (simp add: fatigue_window_update deque_append_def)

lemma update_flag_explicit:
  "fatigue_detected (update fm t) \<longleftrightarrow>
     fatigue_detected t
     \<or> (24 \<le> length (fatigue_window t) + 1
        \<and> 70 < sum_list (take 12 (drop (length (fatigue_window t) + 1 - 24)
                    (fatigue_window t @ [frame_alignment_score fm]))) / 12
        \<and> sum_list (drop 12 (drop (length (fatigue_window t) + 1 - 24)
                    (fatigue_window t @ [frame_alignment_score fm]))) / 12
            < sum_list (take 12 (drop (length (fatigue_window t) + 1 - 24)
                    (fatigue_window t @ [frame_alignment_score fm]))) / 12 - 15)"
proof -
  let ?w = "drop (length (fatigue_window t) + 1 - 24)
              (fatigue_window t @ [frame_alignment_score fm])"
  have len: "24 \<le> length ?w \<longleftrightarrow> 24 \<le> length (fatigue_window t) + 1" by auto
  have m1: "np_mean (take 12 ?w) = sum_list (take 12 ?w) / 12"
    if "24 \<le> length (fatigue_window t) + 1"
    using that by (intro np_mean_12) auto
  have m2: "np_mean (drop 12 ?w) = sum_list (drop 12 ?w) / 12"
    if "24 \<le> length (fatigue_window t) + 1"
    using that by (intro np_mean_12) auto
  show ?thesis
    unfolding fatigue_detected_update [of fm] update_window_explicit len
    using m1 m2 by auto
qed

lemma late_decline_scores:
  "map frame_alignment_score late_decline_frames
     = replicate 24 50 @ replicate 12 85 @ replicate 12 60"
  "length late_decline_frames = 48"
  by (simp_all add: late_decline_frames_def frame_with_score_def)

lemma late_decline_last:
  "drop (48 - 24) (take 48 (map frame_alignment_score late_decline_frames))
     = replicate 12 85 @ replicate 12 60"
  by (simp add: late_decline_scores)

lemma sum12: "sum_list (replicate 12 (x :: real)) / 12 = x"
  by (simp add: sum_list_replicate)

lemma late_decline_trend:
  "70 < sum_list (take 12 (replicate 12 85 @ replicate 12 (60 :: real))) / 12"
  "sum_list (drop 12 (replicate 12 85 @ replicate 12 (60 :: real))) / 12
     < sum_list (take 12 (replicate 12 85 @ replicate 12 60)) / 12 - 15"
  by (simp_all add: sum12)

lemma steady_scores:
  "map frame_alignment_score steady_frames = replicate 24 100"
  "length steady_frames = 24"
  by (simp_all add: steady_frames_def frame_with_score_def)

lemma steady_no_trend:
  "\<not> (\<exists>n. 24 \<le> n \<and> n \<le> length steady_frames
          \<and> 70 < sum_list (take 12 (drop (n - 24)
                      (take n (map frame_alignment_score steady_frames)))) / 12
          \<and> sum_list (drop 12 (drop (n - 24)
                      (take n (map frame_alignment_score steady_frames)))) / 12
              < sum_list (take 12 (drop (n - 24)
                      (take n (map frame_alignment_score steady_frames)))) / 12 - 15)"
proof
  assume "\<exists>n. 24 \<le> n \<and> n \<le> length steady_frames
          \<and> 70 < sum_list (take 12 (drop (n - 24)
                      (take n (map frame_alignment_score steady_frames)))) / 12
          \<and> sum_list (drop 12 (drop (n - 24)
                      (take n (map frame_alignment_score steady_frames)))) / 12
              < sum_list (take 12 (drop (n - 24)
                      (take n (map frame_alignment_score steady_frames)))) / 12 - 15"
  then obtain n where n: "24 \<le> n" "n \<le> length steady_frames"
    and lt: "sum_list (drop 12 (drop (n - 24)
                      (take n (map frame_alignment_score steady_frames)))) / 12
              < sum_list (take 12 (drop (n - 24)
                      (take n (map frame_alignment_score steady_frames)))) / 12 - 15"
    by blast
  from n have "n = 24" by (simp add: steady_scores)
  with lt show False by (simp add: steady_scores sum12)
qed

text \<open>
  C6. Within one session the fatigue window holds the last 24 recorded scores, and
  \<open>fatigue_detected\<close> is true exactly when, after some frame from the 24th on, the
  first 12 of the 24 most recent scores had a mean above 70 and the last 12 a mean more
  than 15 points lower. So the flag is false while fewer than 24 frames have been
  recorded; an update sets it exactly when it was set before or the window it leaves
  behind is full and declining in that way; once set it stays set through every later
  update; and \<open>start_session\<close> clears it.
\<close>

theorem fatigue_flag_behaviour:
  "fatigue_window (update_all (start_session now1 now2 t0) fms)
     = drop (length fms - 24) (map frame_alignment_score fms)
   \<and> (fatigue_detected (update_all (start_session now1 now2 t0) fms) \<longleftrightarrow>
       (\<exists>n. 24 \<le> n \<and> n \<le> length fms
          \<and> 70 < sum_list (take 12 (drop (n - 24)
                      (take n (map frame_alignment_score fms)))) / 12
          \<and> sum_list (drop 12 (drop (n - 24)
                      (take n (map frame_alignment_score fms)))) / 12
              < sum_list (take 12 (drop (n - 24)
                      (take n (map frame_alignment_score fms)))) / 12 - 15))
   \<and> (length fms < 24 \<longrightarrow>
       \<not> fatigue_detected (update_all (start_session now1 now2 t0) fms))
   \<and> fatigue_window (update fm t)
       = drop (length (fatigue_window t) + 1 - 24)
           (fatigue_window t @ [frame_alignment_score fm])
   \<and> (fatigue_detected (update fm t) \<longleftrightarrow>
       fatigue_detected t
       \<or> (24 \<le> length (fatigue_window t) + 1
          \<and> 70 < sum_list (take 12 (drop (length (fatigue_window t) + 1 - 24)
                      (fatigue_window t @ [frame_alignment_score fm]))) / 12
          \<and> sum_list (drop 12 (drop (length (fatigue_window t) + 1 - 24)
                      (fatigue_window t @ [frame_alignment_score fm]))) / 12
              < sum_list (take 12 (drop (length (fatigue_window t) + 1 - 24)
                      (fatigue_window t @ [frame_alignment_score fm]))) / 12 - 15))
   \<and> (fatigue_detected t \<longrightarrow> fatigue_detected (update_all t fms))
   \<and> \<not> fatigue_detected (start_session now1 now2 t)"
proof (intro conjI impI)
  show "fatigue_window (update_all (start_session now1 now2 t0) fms)
     = drop (length fms - 24) (map frame_alignment_score fms)"
    by (rule session_window)
  show "fatigue_detected (update_all (start_session now1 now2 t0) fms) \<longleftrightarrow>
       (\<exists>n. 24 \<le> n \<and> n \<le> length fms
          \<and> 70 < sum_list (take 12 (drop (n - 24)
                      (take n (map frame_alignment_score fms)))) / 12
          \<and> sum_list (drop 12 (drop (n - 24)
                      (take n (map frame_alignment_score fms)))) / 12
              < sum_list (take 12 (drop (n - 24)
                      (take n (map frame_alignment_score fms)))) / 12 - 15)"
    by (rule session_flag)
  show "fatigue_window (update fm t)
       = drop (length (fatigue_window t) + 1 - 24)
           (fatigue_window t @ [frame_alignment_score fm])"
    by (rule update_window_explicit)
  show "fatigue_detected (update fm t) \<longleftrightarrow>
       fatigue_detected t
       \<or> (24 \<le> length (fatigue_window t) + 1
          \<and> 70 < sum_list (take 12 (drop (length (fatigue_window t) + 1 - 24)
                      (fatigue_window t @ [frame_alignment_score fm]))) / 12
          \<and> sum_list (drop 12 (drop (length (fatigue_window t) + 1 - 24)
                      (fatigue_window t @ [frame_alignment_score fm]))) / 12
              < sum_list (take 12 (drop (length (fatigue_window t) + 1 - 24)
                      (fatigue_window t @ [frame_alignment_score fm]))) / 12 - 15)"
    by (rule update_flag_explicit)
  show "\<not> fatigue_detected (start_session now1 now2 t)"
    by (rule start_session_fatigue)
next
  assume "length fms < 24"
  then show "\<not> fatigue_detected (update_all (start_session now1 now2 t0) fms)"
    by (intro no_fatigue_before_full) (simp_all add: start_session_fatigue)
next
  assume "fatigue_detected t"
  then show "fatigue_detected (update_all t fms)" by (rule fatigue_sticky)
qed

theorem fatigue_flag_behaviour_witness:
  "length [frame_with_score 85, frame_with_score 60] < 24
   \<and> \<not> fatigue_detected (update_all (start_session 0 0 init_tracker)
          [frame_with_score 85, frame_with_score 60])
   \<and> \<not> fatigue_detected (update_all (start_session 0 0 init_tracker) steady_frames)
   \<and> fatigue_window (update_all (start_session 0 0 init_tracker) late_decline_frames)
       = replicate 12 85 @ replicate 12 60
   \<and> fatigue_detected (update_all (start_session 0 0 init_tracker) late_decline_frames)
   \<and> fatigue_detected (update_all
        (update_all (start_session 0 0 init_tracker) late_decline_frames)
        [frame_with_score 95, frame_with_score 90])
   \<and> fatigue_window declining_session = replicate 12 85 @ replicate 11 60
   \<and> \<not> fatigue_detected declining_session
   \<and> fatigue_detected (update (frame_with_score 60) declining_session)"
proof -
  have len: "length [frame_with_score 85, frame_with_score 60] < 24" by simp
  have a: "\<not> fatigue_detected (update_all (start_session 0 0 init_tracker)
          [frame_with_score 85, frame_with_score 60])"
    using fatigue_flag_behaviour [of 0 0 init_tracker
        "[frame_with_score 85, frame_with_score 60]", THEN conjunct2, THEN conjunct2,
        THEN conjunct1] len
    by (rule mp)
  have b: "\<not> fatigue_detected (update_all (start_session 0 0 init_tracker) steady_frames)"
  proof
    assume "fatigue_detected (update_all (start_session 0 0 init_tracker) steady_frames)"
    with fatigue_flag_behaviour [of 0 0 init_tracker steady_frames, THEN conjunct2,
        THEN conjunct1]
    have "\<exists>n. 24 \<le> n \<and> n \<le> length steady_frames
          \<and> 70 < sum_list (take 12 (drop (n - 24)
                      (take n (map frame_alignment_score steady_frames)))) / 12
          \<and> sum_list (drop 12 (drop (n - 24)
                      (take n (map frame_alignment_score steady_frames)))) / 12
              < sum_list (take 12 (drop (n - 24)
                      (take n (map frame_alignment_score steady_frames)))) / 12 - 15"
      by (rule iffD1)
    with steady_no_trend show False by (rule notE)
  qed
  have c0: "fatigue_window (update_all (start_session 0 0 init_tracker) late_decline_frames)
       = drop (length late_decline_frames - 24)
           (map frame_alignment_score late_decline_frames)"
    by (rule fatigue_flag_behaviour [of 0 0 init_tracker late_decline_frames, THEN conjunct1])
  have c: "fatigue_window (update_all (start_session 0 0 init_tracker) late_decline_frames)
       = replicate 12 85 @ replicate 12 60"
    unfolding c0 by (simp add: late_decline_scores)
  have ex: "\<exists>n. 24 \<le> n \<and> n \<le> length late_decline_frames
          \<and> 70 < sum_list (take 12 (drop (n - 24)
                      (take n (map frame_alignment_score late_decline_frames)))) / 12
          \<and> sum_list (drop 12 (drop (n - 24)
                      (take n (map frame_alignment_score late_decline_frames)))) / 12
              < sum_list (take 12 (drop (n - 24)
                      (take n (map frame_alignment_score late_decline_frames)))) / 12 - 15"
  proof (intro exI [of _ 48] conjI)
    show "(24 :: nat) \<le> 48" by simp
    show "48 \<le> length late_decline_frames" by (simp add: late_decline_scores(2))
    show "70 < sum_list (take 12 (drop (48 - 24)
                      (take 48 (map frame_alignment_score late_decline_frames)))) / 12"
      unfolding late_decline_last by (rule late_decline_trend(1))
    show "sum_list (drop 12 (drop (48 - 24)
                      (take 48 (map frame_alignment_score late_decline_frames)))) / 12
              < sum_list (take 12 (drop (48 - 24)
                      (take 48 (map frame_alignment_score late_decline_frames)))) / 12 - 15"
      unfolding late_decline_last by (rule late_decline_trend(2))
  qed
  have d: "fatigue_detected
      (update_all (start_session 0 0 init_tracker) late_decline_frames)"
    using fatigue_flag_behaviour [of 0 0 init_tracker late_decline_frames, THEN conjunct2,
        THEN conjunct1] ex
    by (rule iffD2)
  have e: "fatigue_detected (update_all
        (update_all (start_session 0 0 init_tracker) late_decline_frames)
        [frame_with_score 95, frame_with_score 90])"
    using fatigue_flag_behaviour [of 0 0 init_tracker
        "[frame_with_score 95, frame_with_score 90]" "frame_with_score 95"
        "update_all (start_session 0 0 init_tracker) late_decline_frames",
        THEN conjunct2, THEN conjunct2, THEN conjunct2, THEN conjunct2, THEN conjunct2,
        THEN conjunct1] d
    by (rule mp)
  have len23: "length (replicate 12 (frame_with_score 85)
                        @ replicate 11 (frame_with_score 60)) < 24" by simp
  have f: "\<not> fatigue_detected declining_session"
    unfolding declining_session_def
    using fatigue_flag_behaviour [of 0 0 init_tracker
        "replicate 12 (frame_with_score 85) @ replicate 11 (frame_with_score 60)",
        THEN conjunct2, THEN conjunct2, THEN conjunct1] len23
    by (rule mp)
  have g: "fatigue_detected (update (frame_with_score 60) declining_session)"
    using fatigue_flag_behaviour [of 0 0 init_tracker "[]" "frame_with_score 60"
        declining_session, THEN conjunct2, THEN conjunct2, THEN conjunct2, THEN conjunct2,
        THEN conjunct1]
    by (simp add: declining_window frame_with_score_def eval_nat_numeral)
  from len a b c d e declining_window f g show ?thesis by (intro conjI)
qed

end
